theory Spec2Isabelle
  imports Complex_Main "HOL-Library.AList" "HOL-Library.Multiset"
begin

section \<open>Values shared by the whole model\<close>

text \<open>
  The Python sources are \<^verbatim>\<open>model.py\<close> (entities and their document projections),
  \<^verbatim>\<open>test_crud.py\<close> (update operations and aggregation pipelines that are run
  against the document store), \<^verbatim>\<open>test_read_queries.py\<close> (read pipelines) and
  \<^verbatim>\<open>encrypt.py\<close>.

  Conventions of the embedding:
  \<^item> a Python \<^verbatim>\<open>float\<close> (and a BSON double) is a \<^typ>\<open>real\<close>: arithmetic is exact,
    rounding of IEEE doubles is not modelled;
  \<^item> a Python \<^verbatim>\<open>int\<close> is an \<^typ>\<open>int\<close>;
  \<^item> a \<^verbatim>\<open>datetime\<close> is the number of seconds since the epoch;
  \<^item> a dict literal whose key set is fixed is a record; a dict whose key set depends
    on the data is an association list in insertion order, a key being set with
    \<^const>\<open>AList.update\<close> as Python's \<^verbatim>\<open>doc[k] = v\<close> does;
  \<^item> every \<^verbatim>\<open>raise\<close> is a value \<open>Inl e\<close> of a sum type.
\<close>

type_synonym datetime = int

datatype error =
    ValueError string
  | KeyError string
  | AttributeError string
  | FileNotFoundError string
  | OperationFailure string

text \<open>Sequencing of fallible steps: the first exception ends the computation.\<close>

definition bind_err :: "error + 'a \<Rightarrow> ('a \<Rightarrow> error + 'b) \<Rightarrow> error + 'b" where
  "bind_err m f = (case m of Inl e \<Rightarrow> Inl e | Inr x \<Rightarrow> f x)"

text \<open>A list comprehension whose element expression may raise.\<close>

fun map_err :: "('a \<Rightarrow> error + 'b) \<Rightarrow> 'a list \<Rightarrow> error + 'b list" where
  "map_err f [] = Inr []"
| "map_err f (x # xs) =
     bind_err (f x) (\<lambda>y. bind_err (map_err f xs) (\<lambda>ys. Inr (y # ys)))"

text \<open>\<^verbatim>\<open>d[k]\<close> on a dict read from JSON: a missing key raises \<^verbatim>\<open>KeyError\<close>.\<close>

definition getitem :: "(string \<times> 'v) list \<Rightarrow> string \<Rightarrow> error + 'v" where
  "getitem d k = (case map_of d k of None \<Rightarrow> Inl (KeyError k) | Some v \<Rightarrow> Inr v)"

definition keys :: "(string \<times> 'v) list \<Rightarrow> string set" where
  "keys d = fst ` set d"

section \<open>Geo and unit adapters (\<^verbatim>\<open>model.py\<close>)\<close>

text \<open>A GeoJSON geometry: \<^verbatim>\<open>{"type": ..., "coordinates": [...]}\<close>.\<close>

record geometry =
  geo_type :: string
  coordinates :: "real list"

record Location =
  latitude :: real
  longitude :: real

record LocationWithAltitude =
  latitude3 :: real
  longitude3 :: real
  altitude3 :: real

definition Location_to_geojson :: "Location \<Rightarrow> geometry" where
  "Location_to_geojson self =
     \<lparr>geo_type = ''Point'', coordinates = [longitude self, latitude self]\<rparr>"

definition LocationWithAltitude_to_geojson :: "LocationWithAltitude \<Rightarrow> geometry" where
  "LocationWithAltitude_to_geojson self =
     \<lparr>geo_type = ''Point'',
      coordinates = [longitude3 self, latitude3 self, altitude3 self]\<rparr>"

text \<open>
  \<^verbatim>\<open>LocationWithAltitude.from_geojson\<close>, the only conversion from a geometry in the
  repository: it rejects every geometry that is not a point, then every point that
  does not have exactly three coordinates.
\<close>

definition LocationWithAltitude_from_geojson :: "geometry \<Rightarrow> error + LocationWithAltitude" where
  "LocationWithAltitude_from_geojson g =
     (if geo_type g \<noteq> ''Point'' then Inl (ValueError ''Only Point geometries are supported'')
      else case coordinates g of
        [lon, lat, alt] \<Rightarrow> Inr \<lparr>latitude3 = lat, longitude3 = lon, altitude3 = alt\<rparr>
      | _ \<Rightarrow> Inl (ValueError ''Expected 3D coordinates [lon, lat, alt]''))"

subsection \<open>Wind vector to speed and bearing\<close>

text \<open>
  \<^verbatim>\<open>math.atan2(y, x)\<close> on real numbers: the angle of the point \<open>(x, y)\<close> in
  \<open>(-\<pi>, \<pi>]\<close>, and \<open>0\<close> at the origin.
\<close>

definition atan2 :: "real \<Rightarrow> real \<Rightarrow> real" where
  "atan2 y x =
     (if 0 < x then arctan (y / x)
      else if x < 0 then (if 0 \<le> y then arctan (y / x) + pi else arctan (y / x) - pi)
      else if 0 < y then pi / 2
      else if y < 0 then - (pi / 2)
      else 0)"

text \<open>\<^verbatim>\<open>math.degrees\<close>.\<close>

definition degrees :: "real \<Rightarrow> real" where
  "degrees x = x * 180 / pi"

text \<open>Python's \<^verbatim>\<open>a % b\<close> on floats: the remainder of the floored quotient.\<close>

definition py_fmod :: "real \<Rightarrow> real \<Rightarrow> real" where
  "py_fmod a b = a - b * of_int \<lfloor>a / b\<rfloor>"

record RadiosondeReading =
  rs_timestamp :: datetime
  rs_location :: LocationWithAltitude
  rs_gpheight :: real
  rs_temp :: real
  rs_dewpoint :: real
  rs_pressure :: real
  rs_wind_speed :: real
  rs_wind_direction :: real

text \<open>
  \<^verbatim>\<open>RadiosondeReading.from_geojson_properties\<close>. \<open>properties\<close> is the feature's
  property dict; \<open>fromtimestamp\<close> stands for \<^verbatim>\<open>datetime.fromtimestamp\<close>, which
  depends on the time zone of the machine. The keys are read in the order of the
  source, so the first missing one is the \<^verbatim>\<open>KeyError\<close> raised.
\<close>

definition from_geojson_properties ::
  "(real \<Rightarrow> datetime) \<Rightarrow> (string \<times> real) list \<Rightarrow> LocationWithAltitude
     \<Rightarrow> error + RadiosondeReading" where
  "from_geojson_properties fromtimestamp properties location =
     bind_err (getitem properties ''time'') (\<lambda>unix_timestamp.
     bind_err (getitem properties ''gpheight'') (\<lambda>gpheight.
     bind_err (getitem properties ''temp'') (\<lambda>temp_k.
     bind_err (getitem properties ''dewpoint'') (\<lambda>dewpoint_k.
     bind_err (getitem properties ''pressure'') (\<lambda>pressure.
     bind_err (getitem properties ''wind_u'') (\<lambda>wind_u.
     bind_err (getitem properties ''wind_v'') (\<lambda>wind_v.
       let wind_speed = (wind_u ^ 2 + wind_v ^ 2) powr (1 / 2);
           wind_direction_radians = atan2 wind_v wind_u;
           wind_direction_degrees = degrees wind_direction_radians;
           wind_direction_degrees' = py_fmod (wind_direction_degrees + 360) 360
       in Inr \<lparr>rs_timestamp = fromtimestamp unix_timestamp,
               rs_location = location,
               rs_gpheight = gpheight,
               rs_temp = temp_k - 273.15,
               rs_dewpoint = dewpoint_k - 273.15,
               rs_pressure = pressure,
               rs_wind_speed = wind_speed,
               rs_wind_direction = wind_direction_degrees'\<rparr>)))))))"

section \<open>Credential capability (\<^verbatim>\<open>encrypt.py\<close>)\<close>

text \<open>
  \<^verbatim>\<open>bcrypt\<close> and \<^verbatim>\<open>Fernet\<close> are libraries: the model takes them as a record of
  functions. Both draw randomness at every call (the salt of \<^verbatim>\<open>bcrypt.gensalt()\<close>,
  the initialisation vector of a Fernet token), which is passed explicitly. They are
  taken as total: a call that raises, as some releases of \<^verbatim>\<open>bcrypt\<close> do on a
  password of more than 72 bytes, is outside the model.
\<close>

record crypto =
  bcrypt_hashpw :: "string \<Rightarrow> string \<Rightarrow> string"
  fernet_encrypt :: "string \<Rightarrow> string \<Rightarrow> string"

definition hash_password :: "crypto \<Rightarrow> string \<Rightarrow> string \<Rightarrow> string" where
  "hash_password C gensalt plain_password = bcrypt_hashpw C plain_password gensalt"

definition encrypt :: "crypto \<Rightarrow> string \<Rightarrow> string \<Rightarrow> string" where
  "encrypt C iv plain_text = fernet_encrypt C iv plain_text"

text \<open>The randomness one \<^verbatim>\<open>get_user_doc\<close> call draws, in the order of its calls.\<close>

record draws =
  salt :: string
  iv_name :: string
  iv_email :: string

section \<open>Users and their projections (\<^verbatim>\<open>model.py\<close>)\<close>

text \<open>
  A user document and an embedded owner or station subset hold strings only; their
  key sets differ between the variants, so they are association lists.
\<close>

type_synonym subdoc = "(string \<times> string) list"

record Institution =
  i_user_id :: string
  i_password :: string
  i_institution_name :: string
  i_institution_type :: string
  i_contact_name :: string
  i_contact_email :: string
  i_contact_telephone :: string

record WeatherWatcher =
  w_user_id :: string
  w_password :: string
  w_display_name :: string
  w_name :: string
  w_email :: string

record Administrator =
  a_user_id :: string
  a_password :: string
  a_name :: string
  a_email :: string

definition Institution_get_user_doc :: "crypto \<Rightarrow> draws \<Rightarrow> Institution \<Rightarrow> subdoc" where
  "Institution_get_user_doc C rnd self =
     [(''_id'', i_user_id self),
      (''password'', hash_password C (salt rnd) (i_password self)),
      (''user_type'', i_institution_type self),
      (''institution'', i_institution_name self),
      (''contact'', i_contact_name self),
      (''email'', i_contact_email self),
      (''telephone'', i_contact_telephone self)]"

definition Institution_get_subset_for_weather_station :: "Institution \<Rightarrow> subdoc" where
  "Institution_get_subset_for_weather_station self =
     [(''owner_type'', i_institution_type self),
      (''user_id'', i_user_id self),
      (''name'', i_institution_name self),
      (''contact'', i_contact_name self),
      (''email'', i_contact_email self),
      (''telephone'', i_contact_telephone self)]"

definition Institution_get_subset_for_weather_report :: "Institution \<Rightarrow> subdoc" where
  "Institution_get_subset_for_weather_report self =
     [(''owner_type'', i_institution_type self),
      (''user_id'', i_user_id self),
      (''name'', i_institution_name self)]"

definition WeatherWatcher_get_user_doc :: "crypto \<Rightarrow> draws \<Rightarrow> WeatherWatcher \<Rightarrow> subdoc" where
  "WeatherWatcher_get_user_doc C rnd self =
     [(''_id'', w_user_id self),
      (''password'', hash_password C (salt rnd) (w_password self)),
      (''user_type'', ''Private''),
      (''name'', encrypt C (iv_name rnd) (w_name self)),
      (''display_name'', w_display_name self),
      (''email'', encrypt C (iv_email rnd) (w_email self))]"

definition WeatherWatcher_get_subset_for_weather_station :: "WeatherWatcher \<Rightarrow> subdoc" where
  "WeatherWatcher_get_subset_for_weather_station self =
     [(''owner_type'', ''Private''),
      (''user_id'', w_user_id self),
      (''name'', w_display_name self)]"

definition WeatherWatcher_get_subset_for_weather_report :: "WeatherWatcher \<Rightarrow> subdoc" where
  "WeatherWatcher_get_subset_for_weather_report self =
     [(''owner_type'', ''Private''),
      (''user_id'', w_user_id self),
      (''name'', w_display_name self)]"

definition Administrator_get_user_doc :: "crypto \<Rightarrow> draws \<Rightarrow> Administrator \<Rightarrow> subdoc" where
  "Administrator_get_user_doc C rnd self =
     [(''_id'', a_user_id self),
      (''password'', hash_password C (salt rnd) (a_password self)),
      (''user_type'', ''Admin''),
      (''name'', encrypt C (iv_name rnd) (a_name self)),
      (''email'', encrypt C (iv_email rnd) (a_email self))]"

text \<open>
  The three classes have no common base class; an attribute that holds "a user" holds
  an object of one of them, and a method call is resolved on the object's class.
  \<^verbatim>\<open>Administrator\<close> defines neither embedding projection, so calling one on an
  administrator raises \<^verbatim>\<open>AttributeError\<close>.
\<close>

datatype user =
    An_Institution Institution
  | A_WeatherWatcher WeatherWatcher
  | An_Administrator Administrator

fun get_user_doc :: "crypto \<Rightarrow> draws \<Rightarrow> user \<Rightarrow> subdoc" where
  "get_user_doc C rnd (An_Institution u) = Institution_get_user_doc C rnd u"
| "get_user_doc C rnd (A_WeatherWatcher u) = WeatherWatcher_get_user_doc C rnd u"
| "get_user_doc C rnd (An_Administrator u) = Administrator_get_user_doc C rnd u"

fun get_subset_for_weather_station :: "user \<Rightarrow> error + subdoc" where
  "get_subset_for_weather_station (An_Institution u) =
     Inr (Institution_get_subset_for_weather_station u)"
| "get_subset_for_weather_station (A_WeatherWatcher u) =
     Inr (WeatherWatcher_get_subset_for_weather_station u)"
| "get_subset_for_weather_station (An_Administrator u) =
     Inl (AttributeError ''get_subset_for_weather_station'')"

fun get_subset_for_weather_report :: "user \<Rightarrow> error + subdoc" where
  "get_subset_for_weather_report (An_Institution u) =
     Inr (Institution_get_subset_for_weather_report u)"
| "get_subset_for_weather_report (A_WeatherWatcher u) =
     Inr (WeatherWatcher_get_subset_for_weather_report u)"
| "get_subset_for_weather_report (An_Administrator u) =
     Inl (AttributeError ''get_subset_for_weather_report'')"

text \<open>The plaintext password attribute of a user object, and the object with another one.\<close>

fun password_of :: "user \<Rightarrow> string" where
  "password_of (An_Institution u) = i_password u"
| "password_of (A_WeatherWatcher u) = w_password u"
| "password_of (An_Administrator u) = a_password u"

fun with_password :: "string \<Rightarrow> user \<Rightarrow> user" where
  "with_password p (An_Institution u) = An_Institution (u\<lparr>i_password := p\<rparr>)"
| "with_password p (A_WeatherWatcher u) = A_WeatherWatcher (u\<lparr>w_password := p\<rparr>)"
| "with_password p (An_Administrator u) = An_Administrator (u\<lparr>a_password := p\<rparr>)"

section \<open>Readings, observations and the weather report (\<^verbatim>\<open>model.py\<close>)\<close>

record WeatherStationReading =
  timestamp :: datetime
  sample_duration :: int
  temp :: real
  dewpoint :: real
  humidity :: real
  pressure :: real
  precip :: real
  cloud_cover :: real
  wind_speed :: real
  wind_direction :: real
  sunshine :: real
  soil_0_7_temp :: real
  soil_0_7_moisture :: real
  soil_7_28_temp :: real
  soil_7_28_moisture :: real
  soil_28_100_temp :: real
  soil_28_100_moisture :: real
  soil_100_255_temp :: real
  soil_100_255_moisture :: real

text \<open>The embedded reading document: a dict literal with a fixed key set.\<close>

record soil_band =
  sb_temp :: real
  sb_moisture :: real

record soil_doc =
  soil_0_to_7cm :: soil_band
  soil_7_to_28cm :: soil_band
  soil_28_to_100cm :: soil_band
  soil_100_to_255cm :: soil_band

record reading_doc =
  r_timestamp :: datetime
  r_sample_duration :: int
  r_temp :: real
  r_dewpoint :: real
  r_humidity :: real
  r_pressure :: real
  r_precip :: real
  r_cloud_cover :: real
  r_wind_speed :: real
  r_wind_direction :: real
  r_sunshine :: real
  r_soil :: soil_doc

definition WeatherStationReading_get_doc_for_weather_report ::
  "WeatherStationReading \<Rightarrow> reading_doc" where
  "WeatherStationReading_get_doc_for_weather_report self =
     \<lparr>r_timestamp = timestamp self,
      r_sample_duration = sample_duration self,
      r_temp = temp self,
      r_dewpoint = dewpoint self,
      r_humidity = humidity self,
      r_pressure = pressure self,
      r_precip = precip self,
      r_cloud_cover = cloud_cover self,
      r_wind_speed = wind_speed self,
      r_wind_direction = wind_direction self,
      r_sunshine = sunshine self,
      r_soil =
        \<lparr>soil_0_to_7cm = \<lparr>sb_temp = soil_0_7_temp self, sb_moisture = soil_0_7_moisture self\<rparr>,
         soil_7_to_28cm = \<lparr>sb_temp = soil_7_28_temp self, sb_moisture = soil_7_28_moisture self\<rparr>,
         soil_28_to_100cm =
           \<lparr>sb_temp = soil_28_100_temp self, sb_moisture = soil_28_100_moisture self\<rparr>,
         soil_100_to_255cm =
           \<lparr>sb_temp = soil_100_255_temp self, sb_moisture = soil_100_255_moisture self\<rparr>\<rparr>\<rparr>"

text \<open>The \<^verbatim>\<open>day_summary\<close> sub-document: sixteen numbers under fixed keys.\<close>

record day_summary_doc =
  temp_mean :: real
  temp_min :: real
  temp_max :: real
  dewpoint_mean :: real
  humidity_mean :: real
  humidity_min :: real
  humidity_max :: real
  pressure_mean :: real
  pressure_min :: real
  pressure_max :: real
  precip_sum :: real
  cloud_cover_mean :: real
  wind_speed_mean :: real
  wind_speed_min :: real
  wind_speed_max :: real
  sunshine_sum :: real

datatype WeatherCategory =
    CLEAR | SUNNY | SUNNY_INTERVALS | LIGHT_CLOUD | HEAVY_CLOUD | DRIZZLE
  | SUNSHINE_AND_SHOWERS | LIGHT_SHOWERS | HEAVY_SHOWERS | LIGHT_RAIN | HEAVY_RAIN
  | THUNDER_STORM | THUNDERY_SHOWERS | SLEET_SHOWERS | SLEET | LIGHT_SNOW_SHOWERS
  | HEAVY_SNOW_SHOWERS | LIGHT_SNOW | HEAVY_SNOW | HAIL_SHOWERS | HAIL | FOG | HAZY | MIST

fun category_value :: "WeatherCategory \<Rightarrow> string" where
  "category_value CLEAR = ''Clear''"
| "category_value SUNNY = ''Sunny''"
| "category_value SUNNY_INTERVALS = ''Sunny intervals''"
| "category_value LIGHT_CLOUD = ''Light cloud''"
| "category_value HEAVY_CLOUD = ''Heavy cloud''"
| "category_value DRIZZLE = ''Drizzle''"
| "category_value SUNSHINE_AND_SHOWERS = ''Sunshine and showers''"
| "category_value LIGHT_SHOWERS = ''Light showers''"
| "category_value HEAVY_SHOWERS = ''Heavy showers''"
| "category_value LIGHT_RAIN = ''Light rain''"
| "category_value HEAVY_RAIN = ''Heavy rain''"
| "category_value THUNDER_STORM = ''Thunder storm''"
| "category_value THUNDERY_SHOWERS = ''Thundery showers''"
| "category_value SLEET_SHOWERS = ''Sleet showers''"
| "category_value SLEET = ''Sleet''"
| "category_value LIGHT_SNOW_SHOWERS = ''Light snow showers''"
| "category_value HEAVY_SNOW_SHOWERS = ''Heavy snow showers''"
| "category_value LIGHT_SNOW = ''Light snow''"
| "category_value HEAVY_SNOW = ''Heavy snow''"
| "category_value HAIL_SHOWERS = ''Hail showers''"
| "category_value HAIL = ''Hail''"
| "category_value FOG = ''Fog''"
| "category_value HAZY = ''Hazy''"
| "category_value MIST = ''Mist''"

text \<open>
  A manual observation. The constructor's check that \<open>category\<close> is a
  \<^verbatim>\<open>WeatherCategory\<close> or \<^verbatim>\<open>None\<close> is the type of the field.
\<close>

record WeatherObservation =
  ob_timestamp :: datetime
  ob_category :: "WeatherCategory option"
  ob_temp :: "real option"
  ob_description :: "string option"
  ob_humidity :: "real option"
  ob_precip :: "real option"
  ob_sample_duration :: "int option"
  ob_pressure :: "real option"
  ob_wind_speed :: "real option"
  ob_wind_direction :: "real option"
  ob_photo_filename :: "string option"

text \<open>The values of an observation document, whose key set depends on the data.\<close>

datatype scalar =
    SDate datetime
  | SInt int
  | SNum real
  | SStr string
  | SBinary "nat list"

type_synonym obs_doc = "(string \<times> scalar) list"

text \<open>
  The file system, as far as \<^verbatim>\<open>open(photo_filename, "rb")\<close> reads it: a map from
  file names to contents. Opening a name outside its domain raises.
\<close>

type_synonym files = "string \<Rightarrow> nat list option"

text \<open>\<^verbatim>\<open>if value is not None: doc[key] = f(value)\<close>.\<close>

definition set_if_present ::
  "string \<Rightarrow> 'a option \<Rightarrow> ('a \<Rightarrow> 'v) \<Rightarrow> (string \<times> 'v) list \<Rightarrow> (string \<times> 'v) list" where
  "set_if_present k v f doc = (case v of None \<Rightarrow> doc | Some x \<Rightarrow> AList.update k (f x) doc)"

definition WeatherObservation_get_doc_for_weather_report ::
  "files \<Rightarrow> WeatherObservation \<Rightarrow> error + obs_doc" where
  "WeatherObservation_get_doc_for_weather_report fs self =
     (let doc = [(''timestamp'', SDate (ob_timestamp self))];
          doc = set_if_present ''category'' (ob_category self) (\<lambda>c. SStr (category_value c)) doc;
          doc = set_if_present ''temp'' (ob_temp self) SNum doc;
          doc = set_if_present ''description'' (ob_description self) SStr doc;
          doc = set_if_present ''humidity'' (ob_humidity self) SNum doc;
          doc = set_if_present ''precip'' (ob_precip self) SNum doc;
          doc = set_if_present ''sample_duration'' (ob_sample_duration self) SInt doc;
          doc = set_if_present ''pressure'' (ob_pressure self) SNum doc;
          doc = set_if_present ''wind_speed'' (ob_wind_speed self) SNum doc;
          doc = set_if_present ''wind_direction'' (ob_wind_direction self) SNum doc
      in case ob_photo_filename self of
           None \<Rightarrow> Inr doc
         | Some name \<Rightarrow>
             (case fs name of
                None \<Rightarrow> Inl (FileNotFoundError name)
              | Some image_data \<Rightarrow> Inr (AList.update ''photo'' (SBinary image_data) doc)))"

record MaintenanceLogItem =
  ml_timestamp :: datetime
  ml_station_id :: string
  ml_tech_id :: string
  ml_report :: string

record WeatherStation =
  st_station_id :: string
  st_name :: string
  st_location :: geometry
  st_owner :: user
  st_status :: string
  st_latest_maintenance :: "MaintenanceLogItem option"

definition WeatherStation_get_subset_for_weather_report :: "WeatherStation \<Rightarrow> subdoc" where
  "WeatherStation_get_subset_for_weather_report self =
     [(''station_id'', st_station_id self), (''name'', st_name self)]"

record WeatherReport =
  wr_date :: datetime
  wr_location :: geometry
  wr_last_modified :: datetime
  wr_version :: int
  wr_station :: "WeatherStation option"
  wr_owner :: "user option"
  wr_readings :: "WeatherStationReading list option"
  wr_observations :: "WeatherObservation list option"
  wr_day_summary :: "day_summary_doc option"

text \<open>The values under the keys of a weather report document.\<close>

datatype field =
    FDate datetime
  | FInt int
  | FGeometry geometry
  | FSubdoc subdoc
  | FReadings "reading_doc list"
  | FObservations "obs_doc list"
  | FDaySummary day_summary_doc

type_synonym weather_report_document = "(string \<times> field) list"

text \<open>
  \<^verbatim>\<open>WeatherReport.get_weather_report_doc\<close>. The optional keys are added in the order
  of the source; the projection of the owner and of an observation may raise, and the
  first exception ends the call.
\<close>

definition get_weather_report_doc :: "files \<Rightarrow> WeatherReport \<Rightarrow> error + weather_report_document" where
  "get_weather_report_doc fs self =
     (let doc = [(''date'', FDate (wr_date self)),
                 (''version'', FInt (wr_version self)),
                 (''last_modified'', FDate (wr_last_modified self)),
                 (''location'', FGeometry (wr_location self))];
          doc = set_if_present ''station'' (wr_station self)
                  (\<lambda>s. FSubdoc (WeatherStation_get_subset_for_weather_report s)) doc
      in bind_err
           (case wr_owner self of
              None \<Rightarrow> Inr doc
            | Some ow \<Rightarrow>
                bind_err (get_subset_for_weather_report ow)
                  (\<lambda>sub. Inr (AList.update ''owner'' (FSubdoc sub) doc)))
           (\<lambda>doc.
              let doc = set_if_present ''readings'' (wr_readings self)
                    (\<lambda>rs. FReadings (map WeatherStationReading_get_doc_for_weather_report rs)) doc
              in bind_err
                   (case wr_observations self of
                      None \<Rightarrow> Inr doc
                    | Some obs \<Rightarrow>
                        bind_err (map_err (WeatherObservation_get_doc_for_weather_report fs) obs)
                          (\<lambda>ds. Inr (AList.update ''observations'' (FObservations ds) doc)))
                   (\<lambda>doc. Inr (set_if_present ''day_summary'' (wr_day_summary self)
                                  FDaySummary doc))))"

text \<open>
  Test data of \<^verbatim>\<open>build_database_and_import_data.py\<close>: the weather watcher
  \<^verbatim>\<open>ww_paul\<close>, his observation of 26 February 2025 with a photo, and the manual
  report that holds it.
\<close>

definition ww_paul :: WeatherWatcher where
  "ww_paul =
     \<lparr>w_user_id = ''ps2004'', w_password = ''Pa$$1234'', w_display_name = ''Paul S'',
      w_name = ''Paul Smithers'', w_email = ''pauls@gmail.com''\<rparr>"

definition observ1 :: WeatherObservation where
  "observ1 =
     \<lparr>ob_timestamp = 1740579120, ob_category = Some HEAVY_RAIN, ob_temp = Some 10,
      ob_description = Some ''Heavy rain caused flooding'', ob_humidity = None,
      ob_precip = None, ob_sample_duration = None, ob_pressure = None,
      ob_wind_speed = None, ob_wind_direction = None,
      ob_photo_filename = Some ''images/flood.jpg''\<rparr>"

definition manualReport1 :: WeatherReport where
  "manualReport1 =
     \<lparr>wr_date = 1740528000,
      wr_location = Location_to_geojson \<lparr>latitude = 52.09332, longitude = 1.32042\<rparr>,
      wr_last_modified = ob_timestamp observ1,
      wr_version = 1,
      wr_station = None,
      wr_owner = Some (A_WeatherWatcher ww_paul),
      wr_readings = None,
      wr_observations = Some [observ1],
      wr_day_summary = None\<rparr>"

section \<open>The document store (\<^verbatim>\<open>helper.py\<close>, \<^verbatim>\<open>MongoDBHandler\<close>)\<close>

text \<open>
  A collection is the list of its documents in natural order. The store is the
  database engine, outside the repository; the model gives its operations the meaning
  the engine documents for them, on documents of the schema the repository writes:
  \<^item> \<^verbatim>\<open>update_one\<close> changes the first document the filter matches,
    \<^verbatim>\<open>update_many\<close> every one; \<^verbatim>\<open>modified_count\<close> counts the documents the
    update changed;
  \<^item> \<^verbatim>\<open>$inc\<close> adds, \<^verbatim>\<open>$set\<close> assigns (creating a missing field), \<^verbatim>\<open>$push\<close>
    appends (creating a missing array);
  \<^item> \<^verbatim>\<open>$unwind\<close> outputs one row per array element and drops a document whose
    array is missing or empty; \<^verbatim>\<open>$group\<close> outputs one row per key, so a group is
    never empty; \<^verbatim>\<open>$skip\<close> rejects a negative count and \<^verbatim>\<open>$limit\<close> a count that
    is not positive;
  \<^item> \<^verbatim>\<open>$sort\<close> on one key outputs the rows in ascending order of the key. The store
    fixes no order among rows of equal key, and two calls may order them differently.
\<close>

fun update_one :: "('d \<Rightarrow> bool) \<Rightarrow> ('d \<Rightarrow> 'd) \<Rightarrow> 'd list \<Rightarrow> 'd list \<times> nat" where
  "update_one flt upd [] = ([], 0)"
| "update_one flt upd (d # ds) =
     (if flt d then (upd d # ds, if upd d = d then 0 else 1)
      else (let (ds', n) = update_one flt upd ds in (d # ds', n)))"

definition update_many :: "('d \<Rightarrow> bool) \<Rightarrow> ('d \<Rightarrow> 'd) \<Rightarrow> 'd list \<Rightarrow> 'd list \<times> nat" where
  "update_many flt upd ds =
     (map (\<lambda>d. if flt d then upd d else d) ds,
      length (filter (\<lambda>d. flt d \<and> upd d \<noteq> d) ds))"

text \<open>\<^verbatim>\<open>find_one\<close>: the first document the filter matches.\<close>

definition find_one :: "('d \<Rightarrow> bool) \<Rightarrow> 'd list \<Rightarrow> 'd option" where
  "find_one flt ds = List.find flt ds"

text \<open>\<^verbatim>\<open>MongoDBHandler.aggregate\<close>: the list of the pipeline's output rows.\<close>

definition aggregate :: "'c \<Rightarrow> ('c \<Rightarrow> 'r list) \<Rightarrow> 'r list" where
  "aggregate collection pipeline = pipeline collection"

definition match_stage :: "('d \<Rightarrow> bool) \<Rightarrow> 'd list \<Rightarrow> 'd list" where
  "match_stage flt ds = filter flt ds"

definition unwind_stage :: "('d \<Rightarrow> 'r list option) \<Rightarrow> 'd list \<Rightarrow> ('d \<times> 'r) list" where
  "unwind_stage arr ds =
     concat (map (\<lambda>d. case arr d of None \<Rightarrow> [] | Some rs \<Rightarrow> map (Pair d) rs) ds)"

text \<open>
  \<^verbatim>\<open>$group\<close>: the rows of each key, in input order, are handed to the accumulators
  as a first row and the rows after it.
\<close>

definition group_stage :: "('row \<Rightarrow> 'k) \<Rightarrow> ('row \<Rightarrow> 'row list \<Rightarrow> 'g) \<Rightarrow> 'row list \<Rightarrow> ('k \<times> 'g) list" where
  "group_stage key acc rows =
     concat (map (\<lambda>k. case filter (\<lambda>row. key row = k) rows of
                         [] \<Rightarrow> []
                       | first # rest \<Rightarrow> [(k, acc first rest)])
                 (remdups (map key rows)))"

text \<open>The accumulators \<^verbatim>\<open>$sum\<close>, \<^verbatim>\<open>$avg\<close>, \<^verbatim>\<open>$min\<close> and \<^verbatim>\<open>$max\<close> over a group.\<close>

definition acc_sum :: "real \<Rightarrow> real list \<Rightarrow> real" where
  "acc_sum x xs = fold (\<lambda>y s. s + y) xs x"

definition acc_avg :: "real \<Rightarrow> real list \<Rightarrow> real" where
  "acc_avg x xs = acc_sum x xs / real (Suc (length xs))"

definition acc_min :: "real \<Rightarrow> real list \<Rightarrow> real" where
  "acc_min x xs = fold (\<lambda>y m. if y < m then y else m) xs x"

definition acc_max :: "real \<Rightarrow> real list \<Rightarrow> real" where
  "acc_max x xs = fold (\<lambda>y m. if m < y then y else m) xs x"

text \<open>
  \<^verbatim>\<open>$sort\<close>, ascending on \<open>key\<close>. The order the store gives rows of equal key at
  one call is the parameter \<open>tie\<close> of that call: among rows of equal key, a row of
  lower \<open>tie\<close> comes first (rows that agree on both keep their input order).
  Whatever \<open>tie\<close> is, the output is sorted by \<open>key\<close> and has the rows of the input.
\<close>

definition sort_stage :: "('r \<Rightarrow> real) \<Rightarrow> ('r \<Rightarrow> nat) \<Rightarrow> 'r list \<Rightarrow> 'r list" where
  "sort_stage key tie rows = sort_key key (sort_key tie rows)"

definition skip_stage :: "int \<Rightarrow> 'r list \<Rightarrow> error + 'r list" where
  "skip_stage n rows =
     (if n < 0 then Inl (OperationFailure ''$skip'') else Inr (drop (nat n) rows))"

definition limit_stage :: "int \<Rightarrow> 'r list \<Rightarrow> error + 'r list" where
  "limit_stage n rows =
     (if n \<le> 0 then Inl (OperationFailure ''$limit'') else Inr (take (nat n) rows))"

section \<open>The stored weather report and its updates (\<^verbatim>\<open>test_crud.py\<close>)\<close>

text \<open>
  A document of the \<^verbatim>\<open>weather_reports\<close> collection: the keys
  \<^verbatim>\<open>get_weather_report_doc\<close> and \<^verbatim>\<open>insert_new_weather_report\<close> write, an optional
  key being \<open>None\<close> when the document does not have it, and the \<^verbatim>\<open>_id\<close> the store
  gave the document.
\<close>

record report_doc =
  rp_id :: nat
  rp_date :: datetime
  rp_version :: int
  rp_last_modified :: datetime
  rp_location :: geometry
  rp_station :: "subdoc option"
  rp_owner :: "subdoc option"
  rp_readings :: "reading_doc list option"
  rp_observations :: "obs_doc list option"
  rp_day_summary :: "day_summary_doc option"

text \<open>The update operators the repository applies to a weather report.\<close>

datatype report_update =
    Push_readings reading_doc
  | Inc_version int
  | Set_last_modified datetime
  | Set_day_summary day_summary_doc
  | Set_owner_name string

fun apply_operator :: "report_update \<Rightarrow> report_doc \<Rightarrow> report_doc" where
  "apply_operator (Push_readings r) d =
     d\<lparr>rp_readings := Some ((case rp_readings d of None \<Rightarrow> [] | Some rs \<Rightarrow> rs) @ [r])\<rparr>"
| "apply_operator (Inc_version n) d = d\<lparr>rp_version := rp_version d + n\<rparr>"
| "apply_operator (Set_last_modified t) d = d\<lparr>rp_last_modified := t\<rparr>"
| "apply_operator (Set_day_summary s) d = d\<lparr>rp_day_summary := Some s\<rparr>"
| "apply_operator (Set_owner_name n) d =
     d\<lparr>rp_owner := Some (AList.update ''name'' n
                           (case rp_owner d of None \<Rightarrow> [] | Some ow \<Rightarrow> ow))\<rparr>"

definition apply_update :: "report_update list \<Rightarrow> report_doc \<Rightarrow> report_doc" where
  "apply_update ops d = fold apply_operator ops d"

text \<open>The filters \<^verbatim>\<open>{"_id": i}\<close> and \<^verbatim>\<open>{"owner.user_id": u}\<close>.\<close>

definition filter_id :: "nat \<Rightarrow> report_doc \<Rightarrow> bool" where
  "filter_id i d = (rp_id d = i)"

definition filter_owner_user_id :: "string \<Rightarrow> report_doc \<Rightarrow> bool" where
  "filter_owner_user_id u d =
     (case rp_owner d of None \<Rightarrow> False | Some ow \<Rightarrow> map_of ow ''user_id'' = Some u)"

text \<open>
  \<^verbatim>\<open>CRUD_tests.insert_new_weather_station_reading\<close>: one \<^verbatim>\<open>update_one\<close> with the
  three operators \<^verbatim>\<open>$push\<close>, \<^verbatim>\<open>$inc\<close> and \<^verbatim>\<open>$set\<close>.
\<close>

definition insert_new_weather_station_reading ::
  "nat \<Rightarrow> reading_doc \<Rightarrow> datetime \<Rightarrow> report_doc list \<Rightarrow> report_doc list" where
  "insert_new_weather_station_reading weather_report_id reading last_modified collection =
     fst (update_one (filter_id weather_report_id)
            (apply_update [Push_readings reading, Inc_version 1, Set_last_modified last_modified])
            collection)"

text \<open>The \<^verbatim>\<open>$group\<close> stage of the day summary pipeline, over the rows of one key.\<close>

definition day_summary_group :: "reading_doc \<Rightarrow> reading_doc list \<Rightarrow> day_summary_doc" where
  "day_summary_group r rs =
     \<lparr>temp_mean = acc_avg (r_temp r) (map r_temp rs),
      temp_min = acc_min (r_temp r) (map r_temp rs),
      temp_max = acc_max (r_temp r) (map r_temp rs),
      dewpoint_mean = acc_avg (r_dewpoint r) (map r_dewpoint rs),
      humidity_mean = acc_avg (r_humidity r) (map r_humidity rs),
      humidity_min = acc_min (r_humidity r) (map r_humidity rs),
      humidity_max = acc_max (r_humidity r) (map r_humidity rs),
      pressure_mean = acc_avg (r_pressure r) (map r_pressure rs),
      pressure_min = acc_min (r_pressure r) (map r_pressure rs),
      pressure_max = acc_max (r_pressure r) (map r_pressure rs),
      precip_sum = acc_sum (r_precip r) (map r_precip rs),
      cloud_cover_mean = acc_avg (r_cloud_cover r) (map r_cloud_cover rs),
      wind_speed_mean = acc_avg (r_wind_speed r) (map r_wind_speed rs),
      wind_speed_min = acc_min (r_wind_speed r) (map r_wind_speed rs),
      wind_speed_max = acc_max (r_wind_speed r) (map r_wind_speed rs),
      sunshine_sum = acc_sum (r_sunshine r) (map r_sunshine rs)\<rparr>"

definition day_summary_pipeline :: "nat \<Rightarrow> report_doc list \<Rightarrow> (nat \<times> day_summary_doc) list" where
  "day_summary_pipeline weather_report_id collection =
     group_stage (\<lambda>row. rp_id (fst row))
       (\<lambda>first rest. day_summary_group (snd first) (map snd rest))
       (unwind_stage rp_readings
          (match_stage (filter_id weather_report_id) collection))"

text \<open>
  \<^verbatim>\<open>CRUD_tests.use_aggregation_pipeline_to_compute_a_day_summary\<close>: when the pipeline
  has a result row, its summary (the row without \<^verbatim>\<open>_id\<close>) is written back with
  \<^verbatim>\<open>$inc\<close> of the version and \<^verbatim>\<open>$set\<close> of \<^verbatim>\<open>day_summary\<close>; otherwise nothing is
  written.
\<close>

definition use_aggregation_pipeline_to_compute_a_day_summary ::
  "nat \<Rightarrow> report_doc list \<Rightarrow> report_doc list" where
  "use_aggregation_pipeline_to_compute_a_day_summary weather_report_id collection =
     (case aggregate collection (day_summary_pipeline weather_report_id) of
        [] \<Rightarrow> collection
      | row # _ \<Rightarrow>
          (let day_summary = snd row
           in fst (update_one (filter_id weather_report_id)
                     (apply_update [Inc_version 1, Set_day_summary day_summary])
                     collection)))"

text \<open>
  The documents of the scenario \<^verbatim>\<open>create_weather_report_adding_hourly_readings\<close>:
  the report \<^verbatim>\<open>insert_new_weather_report\<close> inserts (the store chooses its
  \<^verbatim>\<open>_id\<close>) and the three readings for London on 10 April 2025, at 0:00, 1:00 and
  2:00, each appended with its own time stamp as \<open>last_modified\<close>.
\<close>

definition insert_new_weather_report :: "nat \<Rightarrow> report_doc" where
  "insert_new_weather_report document_id =
     \<lparr>rp_id = document_id,
      rp_date = 1744243200,
      rp_version = 1,
      rp_last_modified = 1744243200,
      rp_location = \<lparr>geo_type = ''Point'', coordinates = [- 0.1630249, 51.493847]\<rparr>,
      rp_station = Some [(''station_id'', ''WS-LON002''), (''name'', ''London'')],
      rp_owner = Some [(''owner_type'', ''Government''), (''user_id'', ''metoff1''),
                       (''name'', ''Met Office'')],
      rp_readings = Some [],
      rp_observations = None,
      rp_day_summary = None\<rparr>"

definition reading_london_midnight :: reading_doc where
  "reading_london_midnight =
     \<lparr>r_timestamp = 1744243200, r_sample_duration = 3600, r_temp = 6.5, r_dewpoint = 2.5,
      r_humidity = 76, r_pressure = 1032.7, r_precip = 0, r_cloud_cover = 25,
      r_wind_speed = 2.62, r_wind_direction = 43, r_sunshine = 0,
      r_soil =
        \<lparr>soil_0_to_7cm = \<lparr>sb_temp = 9.6, sb_moisture = 0.012\<rparr>,
         soil_7_to_28cm = \<lparr>sb_temp = 11.7, sb_moisture = 0.126\<rparr>,
         soil_28_to_100cm = \<lparr>sb_temp = 10.3, sb_moisture = 0.28\<rparr>,
         soil_100_to_255cm = \<lparr>sb_temp = 8, sb_moisture = 0.291\<rparr>\<rparr>\<rparr>"

definition reading_london_1am :: reading_doc where
  "reading_london_1am =
     \<lparr>r_timestamp = 1744246800, r_sample_duration = 3600, r_temp = 6, r_dewpoint = 1.8,
      r_humidity = 75, r_pressure = 1032.7, r_precip = 0, r_cloud_cover = 24,
      r_wind_speed = 2.21, r_wind_direction = 38, r_sunshine = 0,
      r_soil =
        \<lparr>soil_0_to_7cm = \<lparr>sb_temp = 8.9, sb_moisture = 0.01\<rparr>,
         soil_7_to_28cm = \<lparr>sb_temp = 11.7, sb_moisture = 0.126\<rparr>,
         soil_28_to_100cm = \<lparr>sb_temp = 10.3, sb_moisture = 0.28\<rparr>,
         soil_100_to_255cm = \<lparr>sb_temp = 8, sb_moisture = 0.291\<rparr>\<rparr>\<rparr>"

definition reading_london_2am :: reading_doc where
  "reading_london_2am =
     \<lparr>r_timestamp = 1744250400, r_sample_duration = 3600, r_temp = 5.6, r_dewpoint = 2,
      r_humidity = 77, r_pressure = 1032.5, r_precip = 1.1, r_cloud_cover = 44,
      r_wind_speed = 2.08, r_wind_direction = 35, r_sunshine = 0,
      r_soil =
        \<lparr>soil_0_to_7cm = \<lparr>sb_temp = 8.1, sb_moisture = 0.01\<rparr>,
         soil_7_to_28cm = \<lparr>sb_temp = 11.6, sb_moisture = 0.126\<rparr>,
         soil_28_to_100cm = \<lparr>sb_temp = 10.3, sb_moisture = 0.279\<rparr>,
         soil_100_to_255cm = \<lparr>sb_temp = 8, sb_moisture = 0.291\<rparr>\<rparr>\<rparr>"

text \<open>Arithmetic mean, the notion the day summary is compared with.\<close>

definition mean :: "real list \<Rightarrow> real" where
  "mean xs = sum_list xs / real (length xs)"

section \<open>Renaming an owner (\<^verbatim>\<open>test_crud.py\<close>)\<close>

text \<open>A document of the \<^verbatim>\<open>weather_stations\<close> collection; it has no version.\<close>

record maintenance_subset =
  ms_timestamp :: datetime
  ms_tech_id :: string
  ms_report :: string

record station_doc =
  sd_id :: string
  sd_name :: string
  sd_location :: geometry
  sd_owner :: subdoc
  sd_status :: string
  sd_latest_maintenance :: "maintenance_subset option"

definition rename_weather_reports_owner ::
  "string \<Rightarrow> string \<Rightarrow> datetime \<Rightarrow> report_doc list \<Rightarrow> report_doc list" where
  "rename_weather_reports_owner user_id new_name last_modified collection =
     fst (update_many (filter_owner_user_id user_id)
            (apply_update [Set_owner_name new_name, Set_last_modified last_modified,
                           Inc_version 1])
            collection)"

definition rename_weather_station_owner ::
  "string \<Rightarrow> string \<Rightarrow> station_doc list \<Rightarrow> station_doc list" where
  "rename_weather_station_owner user_id new_name collection =
     fst (update_many (\<lambda>d. map_of (sd_owner d) ''user_id'' = Some user_id)
            (\<lambda>d. d\<lparr>sd_owner := AList.update ''name'' new_name (sd_owner d)\<rparr>)
            collection)"

text \<open>
  \<^verbatim>\<open>update_institution_name\<close> sets the key \<^verbatim>\<open>institution\<close> of the user document
  and returns whether a document was modified.
\<close>

definition update_institution_name :: "string \<Rightarrow> string \<Rightarrow> subdoc list \<Rightarrow> subdoc list \<times> bool" where
  "update_institution_name user_id new_name collection =
     (let (collection', modified_count) =
            update_one (\<lambda>d. map_of d ''_id'' = Some user_id)
              (AList.update ''institution'' new_name) collection
      in (collection', modified_count > 0))"

record database =
  weather_reports :: "report_doc list"
  weather_stations :: "station_doc list"
  users :: "subdoc list"

text \<open>
  \<^verbatim>\<open>CRUD_tests.rename_a_weather_station_owner\<close>: the three updates in the order of
  the source. \<open>modification_date\<close> is the value of
  \<^verbatim>\<open>DateHelper.get_current_time_with_fixed_day\<close>, which reads the clock; the reads
  that only log are left out.
\<close>

definition rename_a_weather_station_owner :: "datetime \<Rightarrow> database \<Rightarrow> database" where
  "rename_a_weather_station_owner modification_date db =
     (let db = db\<lparr>weather_reports :=
                    rename_weather_reports_owner ''camUni''
                      ''Science Dept. Cambridge University'' modification_date
                      (weather_reports db)\<rparr>;
          db = db\<lparr>weather_stations :=
                    rename_weather_station_owner ''camUni''
                      ''Science Dept. Cambridge University'' (weather_stations db)\<rparr>;
          db = db\<lparr>users :=
                    fst (update_institution_name ''camUni''
                           ''Science Dept. Cambridge University'' (users db))\<rparr>
      in db)"

text \<open>
  The institution \<^verbatim>\<open>inst_cambridge_uni\<close> of the test data
  (\<^verbatim>\<open>build_database_and_import_data.py\<close>).
\<close>

definition inst_cambridge_uni :: Institution where
  "inst_cambridge_uni =
     \<lparr>i_user_id = ''camUni'', i_password = ''Pa$$1234'',
      i_institution_name = ''Cambridge University'', i_institution_type = ''University'',
      i_contact_name = ''Mr Andy Hopper'', i_contact_email = ''weatherlab@cam.ac.uk'',
      i_contact_telephone = ''01223763500''\<rparr>"

text \<open>
  An example database for the rename scenario, made up from the documents above: the
  London report of the Met Office, a report and a station of Cambridge University, and
  the university's user document. The hash and the cipher are stand-ins; the rename
  does not look at them.
\<close>

definition cambridge_database :: database where
  "cambridge_database =
     \<lparr>weather_reports =
        [insert_new_weather_report 7,
         (insert_new_weather_report 8)
           \<lparr>rp_owner := Some (Institution_get_subset_for_weather_report inst_cambridge_uni)\<rparr>],
      weather_stations =
        [\<lparr>sd_id = ''WS-CAM001'', sd_name = ''Cambridge'',
          sd_location = \<lparr>geo_type = ''Point'', coordinates = [0.1218, 52.2053]\<rparr>,
          sd_owner = Institution_get_subset_for_weather_station inst_cambridge_uni,
          sd_status = ''Online'', sd_latest_maintenance = None\<rparr>],
      users =
        [Institution_get_user_doc
           \<lparr>bcrypt_hashpw = (\<lambda>p s. s @ rev p), fernet_encrypt = (\<lambda>iv p. iv @ p)\<rparr>
           \<lparr>salt = ''$2b$12$'', iv_name = ''a'', iv_email = ''b''\<rparr> inst_cambridge_uni]\<rparr>"

section \<open>The weather extremes report (\<^verbatim>\<open>test_crud.py\<close>)\<close>

record extreme_doc =
  ex_id :: string
  ex_date :: datetime
  ex_station_id :: string
  ex_station_name :: "string option"
  ex_extreme_temp :: "string option"
  ex_extreme_weather :: "string option"
  ex_temp_min :: real
  ex_temp_max :: real
  ex_wind_speed_max :: real
  ex_precip_sum :: real

text \<open>
  The \<^verbatim>\<open>$match\<close> stage: the station identifier, and one of the four thresholds of
  the \<^verbatim>\<open>$or\<close>. A document without \<^verbatim>\<open>station\<close> or without \<^verbatim>\<open>day_summary\<close> does
  not match.
\<close>

definition extremes_match :: "string \<Rightarrow> report_doc \<Rightarrow> bool" where
  "extremes_match station_id d =
     (case rp_station d of
        None \<Rightarrow> False
      | Some st \<Rightarrow>
          map_of st ''station_id'' = Some station_id \<and>
          (case rp_day_summary d of
             None \<Rightarrow> False
           | Some s \<Rightarrow>
               temp_min s < - 5 \<or> temp_max s > 28 \<or> wind_speed_max s > 12 \<or> precip_sum s > 15))"

text \<open>The two \<^verbatim>\<open>$cond\<close> expressions of the \<^verbatim>\<open>$addFields\<close> stage.\<close>

definition extreme_temp :: "day_summary_doc \<Rightarrow> string option" where
  "extreme_temp s =
     (if temp_min s < 0 then Some ''Very Cold''
      else (if temp_max s > 28 then Some ''Very Hot'' else None))"

definition extreme_weather :: "day_summary_doc \<Rightarrow> string option" where
  "extreme_weather s =
     (if wind_speed_max s > 12 \<and> precip_sum s > 15 then Some ''Storm''
      else (if wind_speed_max s > 12 then Some ''Strong Winds''
            else (if precip_sum s > 15 then Some ''Heavy Rain'' else None)))"

text \<open>
  \<^verbatim>\<open>$addFields\<close> and \<^verbatim>\<open>$project\<close> on one matched document. \<open>dateToString\<close> is
  the engine's \<^verbatim>\<open>$dateToString\<close> with the format \<^verbatim>\<open>%Y%m%d\<close>.
\<close>

definition extremes_project :: "(datetime \<Rightarrow> string) \<Rightarrow> report_doc \<Rightarrow> extreme_doc list" where
  "extremes_project dateToString d =
     (case (rp_station d, rp_day_summary d) of
        (Some st, Some s) \<Rightarrow>
          (case map_of st ''station_id'' of
             None \<Rightarrow> []
           | Some sid \<Rightarrow>
               [\<lparr>ex_id = sid @ ''-'' @ dateToString (rp_date d),
                 ex_date = rp_date d,
                 ex_station_id = sid,
                 ex_station_name = map_of st ''name'',
                 ex_extreme_temp = extreme_temp s,
                 ex_extreme_weather = extreme_weather s,
                 ex_temp_min = temp_min s,
                 ex_temp_max = temp_max s,
                 ex_wind_speed_max = wind_speed_max s,
                 ex_precip_sum = precip_sum s\<rparr>])
      | _ \<Rightarrow> [])"

definition extremes_pipeline ::
  "(datetime \<Rightarrow> string) \<Rightarrow> string \<Rightarrow> report_doc list \<Rightarrow> extreme_doc list" where
  "extremes_pipeline dateToString station_id collection =
     concat (map (extremes_project dateToString)
               (match_stage (extremes_match station_id) collection))"

text \<open>\<^verbatim>\<open>$merge\<close> on \<^verbatim>\<open>_id\<close>: replace the document that matches, insert otherwise.\<close>

fun merge_doc :: "extreme_doc \<Rightarrow> extreme_doc list \<Rightarrow> extreme_doc list" where
  "merge_doc e [] = [e]"
| "merge_doc e (x # xs) = (if ex_id x = ex_id e then e # xs else x # merge_doc e xs)"

definition create_weather_extremes_report ::
  "(datetime \<Rightarrow> string) \<Rightarrow> string \<Rightarrow> report_doc list \<Rightarrow> extreme_doc list \<Rightarrow> extreme_doc list" where
  "create_weather_extremes_report dateToString station_id collection weather_extremes =
     fold merge_doc (extremes_pipeline dateToString station_id collection) weather_extremes"

section \<open>Paginated balloon readings (\<^verbatim>\<open>test_read_queries.py\<close>)\<close>

record radiosonde_reading_doc =
  rr_timestamp :: datetime
  rr_location :: geometry
  rr_gpheight :: real
  rr_temp :: real
  rr_dewpoint :: real
  rr_pressure :: real
  rr_wind_speed :: real
  rr_wind_direction :: real

definition get_doc_for_weather_balloon_report :: "RadiosondeReading \<Rightarrow> radiosonde_reading_doc" where
  "get_doc_for_weather_balloon_report self =
     \<lparr>rr_timestamp = rs_timestamp self,
      rr_location = LocationWithAltitude_to_geojson (rs_location self),
      rr_gpheight = rs_gpheight self,
      rr_temp = rs_temp self,
      rr_dewpoint = rs_dewpoint self,
      rr_pressure = rs_pressure self,
      rr_wind_speed = rs_wind_speed self,
      rr_wind_direction = rs_wind_direction self\<rparr>"

record ground_station_doc =
  gs_station_id :: string
  gs_name :: string
  gs_owner :: subdoc

text \<open>A document of the \<^verbatim>\<open>weather_balloon_reports\<close> collection.\<close>

record balloon_doc =
  bl_launch_date :: datetime
  bl_station :: ground_station_doc
  bl_location :: geometry
  bl_version :: int
  bl_last_modified :: datetime
  bl_radiosonde_serial :: string
  bl_radiosonde_software :: string
  bl_readings :: "radiosonde_reading_doc list option"

record page_row =
  pg_timestamp :: datetime
  pg_gpheight :: real
  pg_temp :: real

definition project_reading :: "balloon_doc \<times> radiosonde_reading_doc \<Rightarrow> page_row" where
  "project_reading row =
     \<lparr>pg_timestamp = rr_timestamp (snd row),
      pg_gpheight = rr_gpheight (snd row),
      pg_temp = rr_temp (snd row)\<rparr>"

text \<open>
  The filter of the \<^verbatim>\<open>$match\<close> stage: the ground station, and a launch date within
  the day that starts at \<open>launch_date\<close>. One day is 86400 seconds.
\<close>

definition page_match :: "string \<Rightarrow> datetime \<Rightarrow> balloon_doc \<Rightarrow> bool" where
  "page_match station_id launch_date d =
     (let start_date = launch_date;
          end_date = launch_date + 86400
      in gs_station_id (bl_station d) = station_id \<and>
         start_date \<le> bl_launch_date d \<and> bl_launch_date d < end_date)"

text \<open>The stages \<^verbatim>\<open>$match\<close> and \<^verbatim>\<open>$unwind\<close> of the page query.\<close>

definition matched_readings ::
  "balloon_doc list \<Rightarrow> string \<Rightarrow> datetime \<Rightarrow> (balloon_doc \<times> radiosonde_reading_doc) list" where
  "matched_readings db station_id launch_date =
     unwind_stage bl_readings (match_stage (page_match station_id launch_date) db)"

text \<open>
  \<^verbatim>\<open>get_weather_balloon_readings_by_page\<close>; the value is the result of the
  aggregation, which the source logs. Every call runs the whole pipeline, the sort on
  \<^verbatim>\<open>readings.gpheight\<close> included; \<open>tie\<close> is the order the store gives readings of
  equal height at this call.
\<close>

definition get_weather_balloon_readings_by_page ::
  "(balloon_doc \<times> radiosonde_reading_doc \<Rightarrow> nat) \<Rightarrow> balloon_doc list \<Rightarrow> string \<Rightarrow> datetime
     \<Rightarrow> int \<Rightarrow> int \<Rightarrow> error + page_row list" where
  "get_weather_balloon_readings_by_page tie db station_id launch_date page page_size =
     (let skip = (page - 1) * page_size
      in bind_err
           (skip_stage skip
              (sort_stage (\<lambda>row. rr_gpheight (snd row)) tie
                 (matched_readings db station_id launch_date)))
           (\<lambda>rows. bind_err (limit_stage page_size rows)
              (\<lambda>rows. Inr (map project_reading rows))))"

text \<open>
  Example data in the shape of the Larkhill launches of 1 and 3 April 2025 at 8:00
  (ground station 03743, owned by the Met Office). The readings are made up, since the
  data files of the launches are not among the sources: a reading is given by its
  time, height and temperature.
\<close>

definition sonde_reading :: "datetime \<Rightarrow> real \<Rightarrow> real \<Rightarrow> radiosonde_reading_doc" where
  "sonde_reading t h c =
     \<lparr>rr_timestamp = t,
      rr_location = \<lparr>geo_type = ''Point'', coordinates = [- 1.8, 51.2, h]\<rparr>,
      rr_gpheight = h, rr_temp = c, rr_dewpoint = c - 2, rr_pressure = 1000,
      rr_wind_speed = 5, rr_wind_direction = 270\<rparr>"

definition larkhill_launch :: "datetime \<Rightarrow> radiosonde_reading_doc list \<Rightarrow> balloon_doc" where
  "larkhill_launch t readings =
     \<lparr>bl_launch_date = t,
      bl_station = \<lparr>gs_station_id = ''03743'', gs_name = ''Larkhill'',
                     gs_owner = [(''owner_type'', ''Government''), (''user_id'', ''metoff1''),
                                 (''name'', ''Met Office'')]\<rparr>,
      bl_location = \<lparr>geo_type = ''Point'', coordinates = [- 1.8, 51.2, 130]\<rparr>,
      bl_version = 1,
      bl_last_modified = t,
      bl_radiosonde_serial = ''V1234567'',
      bl_radiosonde_software = ''RS41'',
      bl_readings = Some readings\<rparr>"

definition larkhill_reports :: "balloon_doc list" where
  "larkhill_reports =
     [larkhill_launch 1743494400
        [sonde_reading 1743494400 130 9, sonde_reading 1743494460 510 6,
         sonde_reading 1743494430 320 8, sonde_reading 1743494520 905 2,
         sonde_reading 1743494490 700 4],
      larkhill_launch 1743667200 [sonde_reading 1743667200 131 11]]"

text \<open>
  Two orders a store may give readings of equal height: the order of the input, and
  the warmer reading (2 degrees or more) first. And two more example collections: a
  launch with two readings at the same height, and two launches of the station on one
  day, at 8:00 and at 20:00.
\<close>

definition input_order :: "balloon_doc \<times> radiosonde_reading_doc \<Rightarrow> nat" where
  "input_order row = 0"

definition warmer_first :: "balloon_doc \<times> radiosonde_reading_doc \<Rightarrow> nat" where
  "warmer_first row = (if 2 \<le> rr_temp (snd row) then 0 else 1)"

definition equal_height_reports :: "balloon_doc list" where
  "equal_height_reports =
     [larkhill_launch 1743494400
        [sonde_reading 1743494400 500 1, sonde_reading 1743494460 500 2]]"

definition same_day_reports :: "balloon_doc list" where
  "same_day_reports =
     [larkhill_launch 1743494400
        [sonde_reading 1743494400 100 9, sonde_reading 1743494460 300 7],
      larkhill_launch 1743537600
        [sonde_reading 1743537600 200 8, sonde_reading 1743537660 400 6]]"

text \<open>
  Example data for the extremes report: a cold day and a hot, stormy day of the London
  station, on 10 and 11 April 2025, a document of the \<^verbatim>\<open>weather_extremes\<close> collection
  left by an earlier run, and a stand-in for \<^verbatim>\<open>$dateToString\<close> with the format
  \<^verbatim>\<open>%Y%m%d\<close> that is right on these two days.
\<close>

definition cold_day :: day_summary_doc where
  "cold_day =
     \<lparr>temp_mean = - 2, temp_min = - 6, temp_max = 3, dewpoint_mean = - 4,
      humidity_mean = 80, humidity_min = 70, humidity_max = 90,
      pressure_mean = 1020, pressure_min = 1015, pressure_max = 1025,
      precip_sum = 2, cloud_cover_mean = 40, wind_speed_mean = 3,
      wind_speed_min = 1, wind_speed_max = 5, sunshine_sum = 3600\<rparr>"

definition stormy_day :: day_summary_doc where
  "stormy_day =
     \<lparr>temp_mean = 22, temp_min = 14, temp_max = 30, dewpoint_mean = 12,
      humidity_mean = 85, humidity_min = 70, humidity_max = 95,
      pressure_mean = 990, pressure_min = 980, pressure_max = 1000,
      precip_sum = 20, cloud_cover_mean = 90, wind_speed_mean = 9,
      wind_speed_min = 4, wind_speed_max = 14, sunshine_sum = 1800\<rparr>"

definition extreme_reports :: "report_doc list" where
  "extreme_reports =
     [(insert_new_weather_report 7)\<lparr>rp_day_summary := Some cold_day\<rparr>,
      (insert_new_weather_report 8)
        \<lparr>rp_date := 1744329600, rp_last_modified := 1744329600,
         rp_day_summary := Some stormy_day\<rparr>]"

definition earlier_extreme :: extreme_doc where
  "earlier_extreme =
     \<lparr>ex_id = ''WS-LON002-20250410'', ex_date = 1744243200, ex_station_id = ''WS-LON002'',
      ex_station_name = Some ''London'', ex_extreme_temp = None,
      ex_extreme_weather = Some ''Heavy Rain'', ex_temp_min = 1, ex_temp_max = 9,
      ex_wind_speed_max = 4, ex_precip_sum = 18\<rparr>"

definition april_day :: "datetime \<Rightarrow> string" where
  "april_day t = (if t < 1744329600 then ''20250410'' else ''20250411'')"

text \<open>
  A stand-in for the two libraries in examples: the hash is the salt followed by one
  star more than the password has characters, so it is never the password and two
  passwords of one length share it; the cipher puts the initialisation vector in front.
\<close>

definition stars :: crypto where
  "stars = \<lparr>bcrypt_hashpw = (\<lambda>p s. s @ replicate (Suc (length p)) (CHR ''*'')),
            fernet_encrypt = (\<lambda>iv p. iv @ p)\<rparr>"

section \<open>Properties of the geo and unit adapters\<close>

lemma py_fmod_range:
  assumes "0 < b"
  shows "0 \<le> py_fmod a b" and "py_fmod a b < b"
proof -
  define q :: real where "q = of_int \<lfloor>a / b\<rfloor>"
  have lo: "q \<le> a / b" and hi: "a / b < q + 1"
    unfolding q_def by linarith+
  have ab: "b * (a / b) = a" using assms by simp
  from lo assms have "b * q \<le> b * (a / b)"
    by (intro mult_left_mono) simp_all
  with ab have "b * q \<le> a" by simp
  then show "0 \<le> py_fmod a b" by (simp add: py_fmod_def q_def)
  from hi assms have "b * (a / b) < b * (q + 1)"
    by (intro mult_strict_left_mono) simp_all
  with ab have "a < b * q + b" by (simp add: algebra_simps)
  then show "py_fmod a b < b" by (simp add: py_fmod_def q_def)
qed

lemma atan2_range: "- pi < atan2 y x \<and> atan2 y x \<le> pi"
proof -
  have b: "- (pi / 2) < arctan (y / x)" "arctan (y / x) < pi / 2"
    by (rule arctan_lbound, rule arctan_ubound)
  have p: "0 < pi" by (rule pi_gt_zero)
  consider "0 < x" | "x < 0" "0 \<le> y" | "x < 0" "y < 0" | "x = 0"
    by linarith
  then show ?thesis
  proof cases
    case 1
    then have "atan2 y x = arctan (y / x)" by (simp add: atan2_def)
    with b p show ?thesis by linarith
  next
    case 2
    then have "y / x \<le> 0" by (simp add: divide_nonneg_neg)
    then have "arctan (y / x) \<le> 0" by (simp add: arctan_le_zero_iff)
    moreover from 2 have "atan2 y x = arctan (y / x) + pi" by (simp add: atan2_def)
    ultimately show ?thesis using b p by linarith
  next
    case 3
    then have "0 < y / x" by (simp add: divide_neg_neg)
    then have "0 < arctan (y / x)" by (simp add: zero_less_arctan_iff)
    moreover from 3 have "atan2 y x = arctan (y / x) - pi" by (simp add: atan2_def)
    ultimately show ?thesis using b p by linarith
  next
    case 4
    then have "atan2 y x = pi / 2 \<or> atan2 y x = - (pi / 2) \<or> atan2 y x = 0"
      by (simp add: atan2_def)
    with p show ?thesis by linarith
  qed
qed

lemma degrees_atan2_range: "- 180 < degrees (atan2 y x) \<and> degrees (atan2 y x) \<le> 180"
proof -
  have p: "0 < pi" by (rule pi_gt_zero)
  from atan2_range [of y x] have "- pi < atan2 y x" "atan2 y x \<le> pi" by simp_all
  with p have "- 180 * pi < atan2 y x * 180" "atan2 y x * 180 \<le> 180 * pi" by simp_all
  with p have "- 180 < atan2 y x * 180 / pi" "atan2 y x * 180 / pi \<le> 180"
    by (simp_all add: field_simps)
  then show ?thesis by (simp add: degrees_def)
qed

lemma py_fmod_shift:
  assumes "- 180 < d" "d \<le> 180"
  shows "py_fmod (d + 360) 360 = (if 0 \<le> d then d else d + 360)"
proof (cases "0 \<le> d")
  case True
  with assms have "\<lfloor>(d + 360) / 360\<rfloor> = 1" by (simp add: floor_eq_iff)
  with True show ?thesis by (simp add: py_fmod_def)
next
  case False
  with assms have "\<lfloor>(d + 360) / 360\<rfloor> = 0" by (simp add: floor_eq_iff)
  with False show ?thesis by (simp add: py_fmod_def)
qed

text \<open>
  Claim C8, as amended. The repository converts a geometry back into a location only
  in \<^verbatim>\<open>LocationWithAltitude.from_geojson\<close>, which insists on three coordinates.
  For every triple (latitude, longitude, altitude), \<^verbatim>\<open>to_geojson\<close> followed by
  \<^verbatim>\<open>from_geojson\<close> returns the triple itself, the geometry being a point with the
  coordinates in the order longitude, latitude, altitude. For every pair (latitude,
  longitude), \<^verbatim>\<open>Location.to_geojson\<close> is a point with the coordinates in the order
  longitude, latitude, and \<^verbatim>\<open>from_geojson\<close> rejects it with a \<^verbatim>\<open>ValueError\<close>.
\<close>

theorem geometry_round_trip:
  "LocationWithAltitude_from_geojson (LocationWithAltitude_to_geojson l3) = Inr l3
   \<and> geo_type (LocationWithAltitude_to_geojson l3) = ''Point''
   \<and> coordinates (LocationWithAltitude_to_geojson l3)
       = [longitude3 l3, latitude3 l3, altitude3 l3]
   \<and> geo_type (Location_to_geojson l2) = ''Point''
   \<and> coordinates (Location_to_geojson l2) = [longitude l2, latitude l2]
   \<and> LocationWithAltitude_from_geojson (Location_to_geojson l2)
       = Inl (ValueError ''Expected 3D coordinates [lon, lat, alt]'')"
  by (simp add: LocationWithAltitude_from_geojson_def LocationWithAltitude_to_geojson_def
      Location_to_geojson_def)

text \<open>
  Claim C8 as stated fails: the geometry of the pair (51.493847, -0.1630249), the
  location of the London report, is not converted back to the pair; the conversion
  raises.
\<close>

theorem geometry_round_trip_2d_counterexample:
  "LocationWithAltitude_from_geojson
     (Location_to_geojson \<lparr>latitude = 51.493847, longitude = - 0.1630249\<rparr>)
   = Inl (ValueError ''Expected 3D coordinates [lon, lat, alt]'')"
  by (simp add: LocationWithAltitude_from_geojson_def Location_to_geojson_def)

text \<open>
  Claim C7. For a property dict that has the seven keys the builder reads, with the
  wind vector \<open>(u, v)\<close> under \<^verbatim>\<open>wind_u\<close> and \<^verbatim>\<open>wind_v\<close>, the builder returns a
  reading whose speed is \<open>sqrt (u\<^sup>2 + v\<^sup>2)\<close> and whose bearing is
  \<open>(degrees (atan2 v u) + 360) mod 360\<close>; the bearing is the angle itself when that
  is not negative and the angle plus 360 otherwise, and it lies in \<open>[0, 360)\<close>.
\<close>

theorem wind_speed_and_bearing:
  assumes "map_of properties ''time'' = Some t"
    and "map_of properties ''gpheight'' = Some h"
    and "map_of properties ''temp'' = Some tk"
    and "map_of properties ''dewpoint'' = Some dk"
    and "map_of properties ''pressure'' = Some p"
    and "map_of properties ''wind_u'' = Some u"
    and "map_of properties ''wind_v'' = Some v"
  shows "\<exists>r. from_geojson_properties fromtimestamp properties location = Inr r
    \<and> rs_wind_speed r = sqrt (u\<^sup>2 + v\<^sup>2)
    \<and> rs_wind_direction r = py_fmod (degrees (atan2 v u) + 360) 360
    \<and> rs_wind_direction r
        = (if 0 \<le> degrees (atan2 v u) then degrees (atan2 v u) else degrees (atan2 v u) + 360)
    \<and> 0 \<le> rs_wind_direction r \<and> rs_wind_direction r < 360"
proof -
  let ?d = "degrees (atan2 v u)"
  let ?r = "\<lparr>rs_timestamp = fromtimestamp t, rs_location = location, rs_gpheight = h,
             rs_temp = tk - 273.15, rs_dewpoint = dk - 273.15, rs_pressure = p,
             rs_wind_speed = (u\<^sup>2 + v\<^sup>2) powr (1 / 2),
             rs_wind_direction = py_fmod (?d + 360) 360\<rparr>"
  have run: "from_geojson_properties fromtimestamp properties location = Inr ?r"
    using assms by (simp add: from_geojson_properties_def getitem_def bind_err_def Let_def)
  have speed: "(u\<^sup>2 + v\<^sup>2) powr (1 / 2) = sqrt (u\<^sup>2 + v\<^sup>2)"
    by (rule powr_half_sqrt) simp
  have shift: "py_fmod (?d + 360) 360 = (if 0 \<le> ?d then ?d else ?d + 360)"
    using degrees_atan2_range [of v u] by (intro py_fmod_shift) simp_all
  have range: "0 \<le> py_fmod (?d + 360) 360" "py_fmod (?d + 360) 360 < 360"
    by (rule py_fmod_range, simp)+
  show ?thesis
    using run speed shift range by simp
qed

text \<open>A wind blowing along the negative \<open>v\<close> axis at speed 3 has bearing 270.\<close>

theorem wind_speed_and_bearing_witness:
  "\<exists>r. from_geojson_properties (\<lambda>t. \<lfloor>t\<rfloor>)
        [(''time'', 1743465600), (''gpheight'', 120), (''temp'', 280.15),
         (''dewpoint'', 275.15), (''pressure'', 1003), (''wind_u'', 0), (''wind_v'', - 3)]
        \<lparr>latitude3 = 50.2, longitude3 = - 5.3, altitude3 = 110\<rparr> = Inr r
    \<and> rs_wind_speed r = 3 \<and> rs_wind_direction r = 270"
proof -
  have a: "atan2 (- 3) 0 = - (pi / 2)" by (simp add: atan2_def)
  have d: "degrees (atan2 (- 3) 0) = - 90" by (simp add: a degrees_def)
  show ?thesis
    using wind_speed_and_bearing [where properties =
      "[(''time'', 1743465600), (''gpheight'', 120), (''temp'', 280.15),
         (''dewpoint'', 275.15), (''pressure'', 1003), (''wind_u'', 0), (''wind_v'', - 3)]"
      and t = 1743465600 and h = 120 and tk = "280.15" and dk = "275.15" and p = 1003
      and u = 0 and v = "- 3" and fromtimestamp = "\<lambda>t. \<lfloor>t\<rfloor>"
      and location = "\<lparr>latitude3 = 50.2, longitude3 = - 5.3, altitude3 = 110\<rparr>"]
    by (auto simp add: d)
qed

section \<open>Properties of the store operations\<close>

lemma update_one_find:
  "List.find flt ds = Some d \<Longrightarrow> flt (upd d)
     \<Longrightarrow> List.find flt (fst (update_one flt upd ds)) = Some (upd d)"
  by (induction ds) (auto split: if_splits prod.splits)

lemma filter_key_distinct:
  "distinct (map key ds) \<Longrightarrow> d \<in> set ds \<Longrightarrow> filter (\<lambda>x. key x = key d) ds = [d]"
proof (induction ds)
  case Nil
  then show ?case by simp
next
  case (Cons a ds)
  show ?case
  proof (cases "a = d")
    case True
    with Cons.prems have "\<forall>x \<in> set ds. key x \<noteq> key d" by (auto simp: image_iff)
    then have "filter (\<lambda>x. key x = key d) ds = []" by (simp add: filter_empty_conv)
    with True show ?thesis by simp
  next
    case False
    with Cons.prems have "d \<in> set ds" "key a \<noteq> key d" by auto
    with Cons show ?thesis by simp
  qed
qed

lemma acc_sum_eq: "acc_sum x xs = sum_list (x # xs)"
proof -
  have "fold (\<lambda>y s. s + y) xs a = a + sum_list xs" for a :: real
    by (induction xs arbitrary: a) simp_all
  then show ?thesis by (simp add: acc_sum_def)
qed

lemma acc_avg_eq: "acc_avg x xs = mean (x # xs)"
  by (simp add: acc_avg_def mean_def acc_sum_eq)

lemma acc_min_eq: "acc_min x xs = Min (set (x # xs))"
proof -
  have "(\<lambda>y m. if y < m then y else m) = (min :: real \<Rightarrow> real \<Rightarrow> real)"
    by (auto simp: fun_eq_iff min_def)
  then show ?thesis unfolding acc_min_def Min.set_eq_fold by simp
qed

lemma acc_max_eq: "acc_max x xs = Max (set (x # xs))"
proof -
  have "(\<lambda>y m. if m < y then y else m) = (max :: real \<Rightarrow> real \<Rightarrow> real)"
    by (auto simp: fun_eq_iff max_def)
  then show ?thesis unfolding acc_max_def Max.set_eq_fold by simp
qed

lemma remdups_constant:
  "ks \<noteq> [] \<Longrightarrow> \<forall>x \<in> set ks. x = k \<Longrightarrow> remdups ks = [k]"
proof (induction ks)
  case Nil
  then show ?case by simp
next
  case step: (Cons a ks)
  show ?case
  proof (cases "ks = []")
    case True
    with step.prems show ?thesis by simp
  next
    case False
    then obtain b where "b \<in> set ks" by (cases ks) auto
    with step.prems have "a \<in> set ks" by auto
    moreover from False step.prems have "remdups ks = [k]"
      by (intro step.IH) auto
    ultimately show ?thesis by simp
  qed
qed

lemma group_stage_one_key:
  assumes "\<forall>row \<in> set (r # rs). key row = k"
  shows "group_stage key acc (r # rs) = [(k, acc r rs)]"
proof -
  from assms have rd: "remdups (map key (r # rs)) = [k]"
    by (intro remdups_constant) auto
  from assms have f: "filter (\<lambda>row. key row = k) (r # rs) = r # rs"
    by (intro filter_True) simp
  show ?thesis
    unfolding group_stage_def rd using f by simp
qed

lemma unwind_single:
  "unwind_stage arr [d] = (case arr d of None \<Rightarrow> [] | Some rs \<Rightarrow> map (Pair d) rs)"
  by (simp add: unwind_stage_def)

lemma day_summary_pipeline_unique:
  assumes "d \<in> set collection" and "distinct (map rp_id collection)"
  shows "day_summary_pipeline (rp_id d) collection =
    (case rp_readings d of
       None \<Rightarrow> []
     | Some [] \<Rightarrow> []
     | Some (r # rs) \<Rightarrow> [(rp_id d, day_summary_group r rs)])"
proof -
  have m: "match_stage (filter_id (rp_id d)) collection = [d]"
    using filter_key_distinct [OF assms(2) assms(1)]
    by (simp add: match_stage_def filter_id_def [abs_def])
  show ?thesis
  proof (cases "rp_readings d")
    case None
    then show ?thesis
      by (simp add: day_summary_pipeline_def m unwind_single group_stage_def)
  next
    case (Some rs)
    show ?thesis
    proof (cases rs)
      case Nil
      with Some show ?thesis
        by (simp add: day_summary_pipeline_def m unwind_single group_stage_def)
    next
      case (Cons r rs')
      have "group_stage (\<lambda>row. rp_id (fst row))
              (\<lambda>first rest. day_summary_group (snd first) (map snd rest))
              ((d, r) # map (Pair d) rs')
            = [(rp_id d, day_summary_group (snd (d, r)) (map snd (map (Pair d) rs')))]"
        by (rule group_stage_one_key) auto
      with Some Cons show ?thesis
        by (simp add: day_summary_pipeline_def m unwind_single comp_def)
    qed
  qed
qed

lemma group_stage_nonempty:
  "rows \<noteq> [] \<Longrightarrow> group_stage key acc rows \<noteq> []"
proof -
  assume "rows \<noteq> []"
  then obtain r rest where rows: "rows = r # rest" by (cases rows) auto
  let ?f = "\<lambda>k. case filter (\<lambda>row. key row = k) rows of
               [] \<Rightarrow> [] | first # rest \<Rightarrow> [(k, acc first rest)]"
  have "key r \<in> set (remdups (map key rows))" by (simp add: rows)
  moreover have "?f (key r) \<noteq> []" by (simp add: rows)
  ultimately have "\<exists>k \<in> set (remdups (map key rows)). ?f k \<noteq> []" by blast
  then show ?thesis unfolding group_stage_def by auto
qed

lemma find_unwind_nonempty:
  "List.find flt ds = Some d \<Longrightarrow> arr d = Some (r # rs)
     \<Longrightarrow> unwind_stage arr (match_stage flt ds) \<noteq> []"
proof -
  assume f: "List.find flt ds = Some d" and a: "arr d = Some (r # rs)"
  from f have "d \<in> set ds" "flt d" by (auto simp: find_Some_iff)
  then have "d \<in> set (match_stage flt ds)" by (simp add: match_stage_def)
  with a have "(d, r) \<in> set (unwind_stage arr (match_stage flt ds))"
    by (force simp: unwind_stage_def)
  then show ?thesis by auto
qed

lemma apply_update_append:
  "apply_update [Push_readings r, Inc_version 1, Set_last_modified t] d =
     d\<lparr>rp_readings := Some ((case rp_readings d of None \<Rightarrow> [] | Some rs \<Rightarrow> rs) @ [r]),
       rp_version := rp_version d + 1, rp_last_modified := t\<rparr>"
  by (simp add: apply_update_def)

lemma apply_update_summary:
  "apply_update [Inc_version 1, Set_day_summary s] d =
     d\<lparr>rp_version := rp_version d + 1, rp_day_summary := Some s\<rparr>"
  by (simp add: apply_update_def)

text \<open>
  Claim C1, as amended. For the report a filter on \<^verbatim>\<open>_id\<close> finds,
  \<^verbatim>\<open>insert_new_weather_station_reading\<close> appends the reading, increases \<open>version\<close> by
  exactly 1 and sets \<open>last_modified\<close> to the time stamp the caller passes, all in the
  one update of the document; and when the report has at least one reading,
  \<^verbatim>\<open>use_aggregation_pipeline_to_compute_a_day_summary\<close> writes a day summary and
  increases \<open>version\<close> by exactly 1, and \<open>last_modified\<close> is afterwards not below its
  previous value.
\<close>

theorem version_and_last_modified:
  assumes "find_one (filter_id i) collection = Some d"
  shows "(\<exists>d'. find_one (filter_id i)
                 (insert_new_weather_station_reading i reading last_modified collection)
               = Some d'
             \<and> rp_readings d'
                 = Some ((case rp_readings d of None \<Rightarrow> [] | Some rs \<Rightarrow> rs) @ [reading])
             \<and> rp_version d' = rp_version d + 1
             \<and> rp_last_modified d' = last_modified)
       \<and> (\<forall>r rs. rp_readings d = Some (r # rs) \<longrightarrow>
            (\<exists>d' s. find_one (filter_id i)
                       (use_aggregation_pipeline_to_compute_a_day_summary i collection)
                     = Some d'
                  \<and> rp_day_summary d' = Some s
                  \<and> rp_version d' = rp_version d + 1
                  \<and> rp_last_modified d' \<ge> rp_last_modified d))"
proof (intro conjI allI impI)
  from assms have f: "List.find (filter_id i) collection = Some d"
    by (simp add: find_one_def)
  then have id: "rp_id d = i" by (auto simp: find_Some_iff filter_id_def)
  let ?u = "apply_update [Push_readings reading, Inc_version 1, Set_last_modified last_modified]"
  have "filter_id i (?u d)" by (simp add: apply_update_append filter_id_def id)
  with f have "List.find (filter_id i) (fst (update_one (filter_id i) ?u collection)) = Some (?u d)"
    by (rule update_one_find)
  then show "\<exists>d'. find_one (filter_id i)
                 (insert_new_weather_station_reading i reading last_modified collection)
               = Some d'
             \<and> rp_readings d'
                 = Some ((case rp_readings d of None \<Rightarrow> [] | Some rs \<Rightarrow> rs) @ [reading])
             \<and> rp_version d' = rp_version d + 1
             \<and> rp_last_modified d' = last_modified"
    by (simp add: find_one_def insert_new_weather_station_reading_def apply_update_append)
next
  fix r rs
  assume rd: "rp_readings d = Some (r # rs)"
  from assms have f: "List.find (filter_id i) collection = Some d"
    by (simp add: find_one_def)
  then have id: "rp_id d = i" by (auto simp: find_Some_iff filter_id_def)
  from f rd have "unwind_stage rp_readings (match_stage (filter_id i) collection) \<noteq> []"
    by (rule find_unwind_nonempty)
  then have "day_summary_pipeline i collection \<noteq> []"
    unfolding day_summary_pipeline_def by (rule group_stage_nonempty)
  then obtain row rest where res: "day_summary_pipeline i collection = row # rest"
    by (cases "day_summary_pipeline i collection") auto
  let ?u = "apply_update [Inc_version 1, Set_day_summary (snd row)]"
  have "filter_id i (?u d)" by (simp add: apply_update_summary filter_id_def id)
  with f have "List.find (filter_id i) (fst (update_one (filter_id i) ?u collection)) = Some (?u d)"
    by (rule update_one_find)
  with res show "\<exists>d' s. find_one (filter_id i)
                       (use_aggregation_pipeline_to_compute_a_day_summary i collection)
                     = Some d'
                  \<and> rp_day_summary d' = Some s
                  \<and> rp_version d' = rp_version d + 1
                  \<and> rp_last_modified d' \<ge> rp_last_modified d"
    by (simp add: find_one_def use_aggregation_pipeline_to_compute_a_day_summary_def
        aggregate_def apply_update_summary)
qed

text \<open>
  The London report after its first reading (version 2): appending the 1:00 reading
  and recomputing the summary each lead to version 3.
\<close>

theorem version_and_last_modified_witness:
  "(\<exists>d'. find_one (filter_id 7)
           (insert_new_weather_station_reading 7 reading_london_1am 1744246800
              [(insert_new_weather_report 7)
                 \<lparr>rp_version := 2, rp_readings := Some [reading_london_midnight]\<rparr>]) = Some d'
         \<and> rp_readings d' = Some [reading_london_midnight, reading_london_1am]
         \<and> rp_version d' = 3
         \<and> rp_last_modified d' = 1744246800)
   \<and> (\<exists>d' s. find_one (filter_id 7)
           (use_aggregation_pipeline_to_compute_a_day_summary 7
              [(insert_new_weather_report 7)
                 \<lparr>rp_version := 2, rp_readings := Some [reading_london_midnight]\<rparr>]) = Some d'
         \<and> rp_day_summary d' = Some s
         \<and> rp_version d' = 3
         \<and> rp_last_modified d' \<ge> 1744243200)"
proof -
  let ?d = "(insert_new_weather_report 7)
              \<lparr>rp_version := 2, rp_readings := Some [reading_london_midnight]\<rparr>"
  have f: "find_one (filter_id 7) [?d] = Some ?d"
    by (simp add: find_one_def filter_id_def insert_new_weather_report_def)
  have v: "rp_version ?d = 2" "rp_last_modified ?d = 1744243200"
    "rp_readings ?d = Some [reading_london_midnight]"
    by (simp_all add: insert_new_weather_report_def)
  from version_and_last_modified [OF f, of reading_london_1am 1744246800]
  show ?thesis by (simp add: v)
qed

text \<open>
  Claim C1 as stated fails twice. Recomputing the summary of the newly inserted London
  report, which has no reading, leaves its version at 1. And when the 1:00 reading is
  appended after the 2:00 reading, each with its own time stamp as the scenario's
  callers pass it, \<open>last_modified\<close> goes back from 2:00 to 1:00.
\<close>

theorem version_and_last_modified_counterexample:
  "map rp_version (use_aggregation_pipeline_to_compute_a_day_summary 7
                     [insert_new_weather_report 7]) = [1]
   \<and> rp_version (insert_new_weather_report 7) = 1
   \<and> map rp_last_modified
        (insert_new_weather_station_reading 7 reading_london_2am 1744250400
           [insert_new_weather_report 7]) = [1744250400]
   \<and> map rp_last_modified
        (insert_new_weather_station_reading 7 reading_london_1am 1744246800
           (insert_new_weather_station_reading 7 reading_london_2am 1744250400
              [insert_new_weather_report 7])) = [1744246800]"
  by (simp add: use_aggregation_pipeline_to_compute_a_day_summary_def aggregate_def
      day_summary_pipeline_def match_stage_def unwind_stage_def group_stage_def filter_id_def
      insert_new_weather_report_def insert_new_weather_station_reading_def apply_update_def)

text \<open>
  Claim C9. In a collection whose \<^verbatim>\<open>_id\<close>s are distinct, for a report that has no
  reading (an empty \<^verbatim>\<open>readings\<close> array, or none), recomputing the summary leaves the
  whole collection as it was: no day summary is written, and version and
  \<open>last_modified\<close> keep their values.
\<close>

theorem recompute_without_readings_is_noop:
  assumes "d \<in> set collection" and "distinct (map rp_id collection)"
    and "rp_readings d = Some [] \<or> rp_readings d = None"
  shows "use_aggregation_pipeline_to_compute_a_day_summary (rp_id d) collection = collection"
proof -
  from assms(3) have "day_summary_pipeline (rp_id d) collection = []"
    by (auto simp: day_summary_pipeline_unique [OF assms(1,2)])
  then show ?thesis
    by (simp add: use_aggregation_pipeline_to_compute_a_day_summary_def aggregate_def)
qed

text \<open>
  Recomputing the summary of the empty London report 7 changes neither that report nor
  report 8 beside it.
\<close>

theorem recompute_without_readings_is_noop_witness:
  "use_aggregation_pipeline_to_compute_a_day_summary 7
     [insert_new_weather_report 7,
      (insert_new_weather_report 8)\<lparr>rp_readings := Some [reading_london_midnight]\<rparr>]
   = [insert_new_weather_report 7,
      (insert_new_weather_report 8)\<lparr>rp_readings := Some [reading_london_midnight]\<rparr>]"
  using recompute_without_readings_is_noop [of "insert_new_weather_report 7"
      "[insert_new_weather_report 7,
        (insert_new_weather_report 8)\<lparr>rp_readings := Some [reading_london_midnight]\<rparr>]"]
  by (simp add: insert_new_weather_report_def)

lemma find_distinct:
  "distinct (map key ds) \<Longrightarrow> d \<in> set ds \<Longrightarrow> List.find (\<lambda>x. key x = key d) ds = Some d"
proof (induction ds)
  case Nil
  then show ?case by simp
next
  case (Cons a ds)
  show ?case
  proof (cases "a = d")
    case True
    then show ?thesis by simp
  next
    case False
    with Cons.prems have "d \<in> set ds" "key a \<noteq> key d" by (auto simp: image_iff)
    with Cons show ?thesis by simp
  qed
qed

lemma day_summary_group_means:
  "temp_mean (day_summary_group r rs) = mean (map r_temp (r # rs))"
  "dewpoint_mean (day_summary_group r rs) = mean (map r_dewpoint (r # rs))"
  "humidity_mean (day_summary_group r rs) = mean (map r_humidity (r # rs))"
  "pressure_mean (day_summary_group r rs) = mean (map r_pressure (r # rs))"
  "cloud_cover_mean (day_summary_group r rs) = mean (map r_cloud_cover (r # rs))"
  "wind_speed_mean (day_summary_group r rs) = mean (map r_wind_speed (r # rs))"
  by (simp_all add: day_summary_group_def acc_avg_eq)

lemma day_summary_group_extrema:
  "temp_min (day_summary_group r rs) = Min (set (map r_temp (r # rs)))"
  "temp_max (day_summary_group r rs) = Max (set (map r_temp (r # rs)))"
  "humidity_min (day_summary_group r rs) = Min (set (map r_humidity (r # rs)))"
  "humidity_max (day_summary_group r rs) = Max (set (map r_humidity (r # rs)))"
  "pressure_min (day_summary_group r rs) = Min (set (map r_pressure (r # rs)))"
  "pressure_max (day_summary_group r rs) = Max (set (map r_pressure (r # rs)))"
  "wind_speed_min (day_summary_group r rs) = Min (set (map r_wind_speed (r # rs)))"
  "wind_speed_max (day_summary_group r rs) = Max (set (map r_wind_speed (r # rs)))"
  unfolding day_summary_group_def acc_min_eq acc_max_eq by simp_all

lemma day_summary_group_sums:
  "precip_sum (day_summary_group r rs) = sum_list (map r_precip (r # rs))"
  "sunshine_sum (day_summary_group r rs) = sum_list (map r_sunshine (r # rs))"
  by (simp_all add: day_summary_group_def acc_sum_eq)

lemma recompute_unique:
  assumes "d \<in> set collection" and "distinct (map rp_id collection)"
    and "rp_readings d = Some (r # rs)"
  shows "find_one (filter_id (rp_id d))
           (use_aggregation_pipeline_to_compute_a_day_summary (rp_id d) collection)
         = Some (d\<lparr>rp_version := rp_version d + 1,
                   rp_day_summary := Some (day_summary_group r rs)\<rparr>)"
proof -
  let ?s = "day_summary_group r rs"
  let ?u = "apply_update [Inc_version 1, Set_day_summary ?s]"
  have p: "day_summary_pipeline (rp_id d) collection = [(rp_id d, ?s)]"
    by (simp add: day_summary_pipeline_unique [OF assms(1,2)] assms(3))
  have "List.find (\<lambda>x. rp_id x = rp_id d) collection = Some d"
    using assms(2,1) by (rule find_distinct)
  then have f: "List.find (filter_id (rp_id d)) collection = Some d"
    by (simp add: filter_id_def [abs_def])
  have "filter_id (rp_id d) (?u d)" by (simp add: apply_update_summary filter_id_def)
  with f have "List.find (filter_id (rp_id d))
                 (fst (update_one (filter_id (rp_id d)) ?u collection)) = Some (?u d)"
    by (rule update_one_find)
  then show ?thesis
    by (simp add: find_one_def use_aggregation_pipeline_to_compute_a_day_summary_def
        aggregate_def p apply_update_summary)
qed

text \<open>
  Claim C2. In a collection whose \<^verbatim>\<open>_id\<close>s are distinct, after the summary of a
  report with the readings \<open>rs\<close> (at least one) has been recomputed, the report has a
  day summary whose mean fields are the arithmetic means over \<open>rs\<close> of temperature,
  dew point, humidity, pressure, cloud cover and wind speed, whose minimum and maximum
  fields are the least and greatest temperature, humidity, pressure and wind speed, and
  whose precipitation and sunshine fields are the sums; the readings are unchanged.
  For the temperatures 6.5, 6.0 and 5.6 the mean is 6.0333333 within one millionth, the
  minimum 5.6 and the maximum 6.5.
\<close>

theorem day_summary_correct:
  assumes "d \<in> set collection" and "distinct (map rp_id collection)"
    and "rp_readings d = Some rs" and "rs \<noteq> []"
  shows "\<exists>d' s.
      find_one (filter_id (rp_id d))
        (use_aggregation_pipeline_to_compute_a_day_summary (rp_id d) collection) = Some d'
    \<and> rp_readings d' = Some rs
    \<and> rp_day_summary d' = Some s
    \<and> temp_mean s = mean (map r_temp rs)
    \<and> dewpoint_mean s = mean (map r_dewpoint rs)
    \<and> humidity_mean s = mean (map r_humidity rs)
    \<and> pressure_mean s = mean (map r_pressure rs)
    \<and> cloud_cover_mean s = mean (map r_cloud_cover rs)
    \<and> wind_speed_mean s = mean (map r_wind_speed rs)
    \<and> temp_min s = Min (set (map r_temp rs))
    \<and> temp_max s = Max (set (map r_temp rs))
    \<and> humidity_min s = Min (set (map r_humidity rs))
    \<and> humidity_max s = Max (set (map r_humidity rs))
    \<and> pressure_min s = Min (set (map r_pressure rs))
    \<and> pressure_max s = Max (set (map r_pressure rs))
    \<and> wind_speed_min s = Min (set (map r_wind_speed rs))
    \<and> wind_speed_max s = Max (set (map r_wind_speed rs))
    \<and> precip_sum s = sum_list (map r_precip rs)
    \<and> sunshine_sum s = sum_list (map r_sunshine rs)
    \<and> (map r_temp rs = [6.5, 6.0, 5.6] \<longrightarrow>
         \<bar>temp_mean s - 6.0333333\<bar> \<le> 1 / 10 ^ 6 \<and> temp_min s = 5.6 \<and> temp_max s = 6.5)"
proof -
  from assms(4) obtain r rs' where rs: "rs = r # rs'" by (cases rs) auto
  let ?s = "day_summary_group r rs'"
  let ?d' = "d\<lparr>rp_version := rp_version d + 1, rp_day_summary := Some ?s\<rparr>"
  have found: "find_one (filter_id (rp_id d))
        (use_aggregation_pipeline_to_compute_a_day_summary (rp_id d) collection) = Some ?d'"
    using assms(1,2) assms(3) [unfolded rs] by (rule recompute_unique)
  have frame: "rp_readings ?d' = Some rs" "rp_day_summary ?d' = Some ?s"
    using assms(3) by simp_all
  have example: "map r_temp rs = [6.5, 6.0, 5.6] \<longrightarrow>
         \<bar>temp_mean ?s - 6.0333333\<bar> \<le> 1 / 10 ^ 6 \<and> temp_min ?s = 5.6 \<and> temp_max ?s = 6.5"
  proof
    assume t: "map r_temp rs = [6.5, 6.0, 5.6]"
    have "temp_mean ?s = mean [6.5, 6.0, 5.6]"
      using day_summary_group_means(1) [of r rs'] t by (simp only: rs)
    moreover have "temp_min ?s = Min (set [6.5, 6.0, 5.6])"
      using day_summary_group_extrema(1) [of r rs'] t by (simp only: rs)
    moreover have "temp_max ?s = Max (set [6.5, 6.0, 5.6])"
      using day_summary_group_extrema(2) [of r rs'] t by (simp only: rs)
    ultimately show "\<bar>temp_mean ?s - 6.0333333\<bar> \<le> 1 / 10 ^ 6 \<and> temp_min ?s = 5.6
        \<and> temp_max ?s = 6.5"
      by (simp add: mean_def)
  qed
  have fields: "temp_mean ?s = mean (map r_temp rs)
    \<and> dewpoint_mean ?s = mean (map r_dewpoint rs)
    \<and> humidity_mean ?s = mean (map r_humidity rs)
    \<and> pressure_mean ?s = mean (map r_pressure rs)
    \<and> cloud_cover_mean ?s = mean (map r_cloud_cover rs)
    \<and> wind_speed_mean ?s = mean (map r_wind_speed rs)
    \<and> temp_min ?s = Min (set (map r_temp rs))
    \<and> temp_max ?s = Max (set (map r_temp rs))
    \<and> humidity_min ?s = Min (set (map r_humidity rs))
    \<and> humidity_max ?s = Max (set (map r_humidity rs))
    \<and> pressure_min ?s = Min (set (map r_pressure rs))
    \<and> pressure_max ?s = Max (set (map r_pressure rs))
    \<and> wind_speed_min ?s = Min (set (map r_wind_speed rs))
    \<and> wind_speed_max ?s = Max (set (map r_wind_speed rs))
    \<and> precip_sum ?s = sum_list (map r_precip rs)
    \<and> sunshine_sum ?s = sum_list (map r_sunshine rs)"
    by (simp only: rs day_summary_group_means day_summary_group_extrema
        day_summary_group_sums simp_thms)
  from found frame fields example show ?thesis by blast
qed

text \<open>
  The London report with its three readings: the recomputed summary has the mean
  temperature 6.0333333 within one millionth, the minimum 5.6 and the maximum 6.5, the
  mean humidity 76, the least pressure 1032.5 and the precipitation sum 1.1.
\<close>

theorem day_summary_correct_witness:
  "\<exists>d' s. find_one (filter_id 7)
            (use_aggregation_pipeline_to_compute_a_day_summary 7
               [(insert_new_weather_report 7)
                  \<lparr>rp_version := 6,
                    rp_readings := Some [reading_london_midnight, reading_london_1am,
                                         reading_london_2am]\<rparr>]) = Some d'
     \<and> rp_day_summary d' = Some s
     \<and> \<bar>temp_mean s - 6.0333333\<bar> \<le> 1 / 10 ^ 6
     \<and> temp_min s = 5.6 \<and> temp_max s = 6.5
     \<and> humidity_mean s = 76 \<and> pressure_min s = 1032.5
     \<and> precip_sum s = 1.1 \<and> sunshine_sum s = 0"
proof -
  let ?rs = "[reading_london_midnight, reading_london_1am, reading_london_2am]"
  let ?d = "(insert_new_weather_report 7)\<lparr>rp_version := 6, rp_readings := Some ?rs\<rparr>"
  have i: "rp_id ?d = 7" by (simp add: insert_new_weather_report_def)
  have h: "?d \<in> set [?d]" "distinct (map rp_id [?d])" "rp_readings ?d = Some ?rs" "?rs \<noteq> []"
    by simp_all
  have t: "map r_temp ?rs = [6.5, 6.0, 5.6]"
    by (simp add: reading_london_midnight_def reading_london_1am_def reading_london_2am_def)
  have v: "mean (map r_humidity ?rs) = 76" "Min (set (map r_pressure ?rs)) = 1032.5"
    "sum_list (map r_precip ?rs) = 1.1" "sum_list (map r_sunshine ?rs) = 0"
    by (simp_all add: mean_def reading_london_midnight_def reading_london_1am_def
        reading_london_2am_def)
  from day_summary_correct [OF h] obtain d' s where
    "find_one (filter_id (rp_id ?d))
       (use_aggregation_pipeline_to_compute_a_day_summary (rp_id ?d) [?d]) = Some d'"
    "rp_day_summary d' = Some s"
    "humidity_mean s = mean (map r_humidity ?rs)"
    "pressure_min s = Min (set (map r_pressure ?rs))"
    "precip_sum s = sum_list (map r_precip ?rs)"
    "sunshine_sum s = sum_list (map r_sunshine ?rs)"
    "map r_temp ?rs = [6.5, 6.0, 5.6] \<longrightarrow>
       \<bar>temp_mean s - 6.0333333\<bar> \<le> 1 / 10 ^ 6 \<and> temp_min s = 5.6 \<and> temp_max s = 6.5"
    by blast
  with t v show ?thesis
    by (intro exI [of _ d'] exI [of _ s]) (simp add: insert_new_weather_report_def)
qed

section \<open>Properties of the extremes report\<close>

lemma extremes_pipeline_member:
  assumes "d \<in> set collection" and "rp_station d = Some st"
    and "map_of st ''station_id'' = Some station_id" and "rp_day_summary d = Some s"
    and "temp_min s < - 5 \<or> temp_max s > 28 \<or> wind_speed_max s > 12 \<or> precip_sum s > 15"
  shows "\<lparr>ex_id = station_id @ ''-'' @ dateToString (rp_date d),
          ex_date = rp_date d,
          ex_station_id = station_id,
          ex_station_name = map_of st ''name'',
          ex_extreme_temp = extreme_temp s,
          ex_extreme_weather = extreme_weather s,
          ex_temp_min = temp_min s,
          ex_temp_max = temp_max s,
          ex_wind_speed_max = wind_speed_max s,
          ex_precip_sum = precip_sum s\<rparr>
         \<in> set (extremes_pipeline dateToString station_id collection)"
proof -
  from assms have "d \<in> set (match_stage (extremes_match station_id) collection)"
    by (simp add: match_stage_def extremes_match_def)
  moreover from assms have "extremes_project dateToString d =
      [\<lparr>ex_id = station_id @ ''-'' @ dateToString (rp_date d),
        ex_date = rp_date d,
        ex_station_id = station_id,
        ex_station_name = map_of st ''name'',
        ex_extreme_temp = extreme_temp s,
        ex_extreme_weather = extreme_weather s,
        ex_temp_min = temp_min s,
        ex_temp_max = temp_max s,
        ex_wind_speed_max = wind_speed_max s,
        ex_precip_sum = precip_sum s\<rparr>]"
    by (simp add: extremes_project_def)
  ultimately show ?thesis
    unfolding extremes_pipeline_def by (auto intro!: bexI [of _ d])
qed

lemma extreme_temp_cases:
  "(extreme_temp s = Some ''Very Cold'') = (temp_min s < 0)"
  "(extreme_temp s = Some ''Very Hot'') = (\<not> temp_min s < 0 \<and> temp_max s > 28)"
  "(extreme_temp s = None) = (\<not> temp_min s < 0 \<and> \<not> temp_max s > 28)"
  by (simp_all add: extreme_temp_def)

lemma extreme_weather_cases:
  "(extreme_weather s = Some ''Storm'') = (wind_speed_max s > 12 \<and> precip_sum s > 15)"
  "(extreme_weather s = Some ''Strong Winds'') = (wind_speed_max s > 12 \<and> \<not> precip_sum s > 15)"
  "(extreme_weather s = Some ''Heavy Rain'') = (\<not> wind_speed_max s > 12 \<and> precip_sum s > 15)"
  "(extreme_weather s = None) = (\<not> wind_speed_max s > 12 \<and> \<not> precip_sum s > 15)"
  by (auto simp add: extreme_weather_def)


text \<open>What \<^verbatim>\<open>$merge\<close> leaves under an \<^verbatim>\<open>_id\<close>: the last row of that \<^verbatim>\<open>_id\<close>.\<close>

lemma merge_doc_find:
  "List.find (\<lambda>x. ex_id x = k) (merge_doc e xs)
     = (if ex_id e = k then Some e else List.find (\<lambda>x. ex_id x = k) xs)"
  by (induction xs) auto

lemma find_snoc:
  "List.find P (xs @ [y])
     = (case List.find P xs of Some x \<Rightarrow> Some x | None \<Rightarrow> if P y then Some y else None)"
  by (induction xs) simp_all

lemma fold_merge_doc_find:
  "List.find (\<lambda>x. ex_id x = k) (fold merge_doc rows xs)
     = (case List.find (\<lambda>x. ex_id x = k) (rev rows) of
          Some e \<Rightarrow> Some e
        | None \<Rightarrow> List.find (\<lambda>x. ex_id x = k) xs)"
proof (induction rows arbitrary: xs)
  case Nil
  then show ?case by simp
next
  case (Cons r rows)
  show ?case
    by (simp add: Cons.IH merge_doc_find find_snoc split: option.splits)
qed

lemma find_only:
  assumes "x \<in> set ys" and "P x" and "\<forall>y \<in> set ys. P y \<longrightarrow> y = x"
  shows "List.find P ys = Some x"
proof -
  from assms(1,2) obtain y where "List.find P ys = Some y"
    by (cases "List.find P ys") (auto simp: find_None_iff)
  moreover from this have "y \<in> set ys" "P y" by (auto simp: find_Some_iff)
  ultimately show ?thesis using assms(3) by auto
qed

lemma extremes_pipeline_rows:
  assumes "e \<in> set (extremes_pipeline dateToString station_id collection)"
  shows "\<exists>d \<in> set collection. extremes_match station_id d
    \<and> ex_id e = station_id @ ''-'' @ dateToString (rp_date d)
    \<and> extremes_project dateToString d = [e]"
proof -
  from assms obtain d where d: "d \<in> set collection" "extremes_match station_id d"
    and e: "e \<in> set (extremes_project dateToString d)"
    by (auto simp: extremes_pipeline_def match_stage_def)
  from d(2) obtain st s where "rp_station d = Some st"
    "map_of st ''station_id'' = Some station_id" "rp_day_summary d = Some s"
    by (auto simp: extremes_match_def split: option.splits)
  with e have "ex_id e = station_id @ ''-'' @ dateToString (rp_date d)"
    "extremes_project dateToString d = [e]"
    by (auto simp: extremes_project_def)
  with d show ?thesis by blast
qed


lemma merge_doc_set: "set (merge_doc e xs) \<subseteq> insert e (set xs)"
  by (induction xs) auto

lemma fold_merge_doc_set: "set (fold merge_doc rows xs) \<subseteq> set rows \<union> set xs"
proof (induction rows arbitrary: xs)
  case Nil
  then show ?case by simp
next
  case (Cons r rows)
  from Cons.IH [of "merge_doc r xs"] merge_doc_set [of r xs] show ?case by auto
qed

lemma extremes_pipeline_row_consistent:
  assumes "e \<in> set (extremes_pipeline dateToString station_id collection)"
  shows "(ex_extreme_temp e = Some ''Very Cold'') = (ex_temp_min e < 0)
    \<and> (ex_extreme_temp e = Some ''Very Hot'') = (\<not> ex_temp_min e < 0 \<and> ex_temp_max e > 28)
    \<and> (ex_extreme_temp e = None) = (\<not> ex_temp_min e < 0 \<and> \<not> ex_temp_max e > 28)
    \<and> (ex_extreme_weather e = Some ''Storm'')
        = (ex_wind_speed_max e > 12 \<and> ex_precip_sum e > 15)
    \<and> (ex_extreme_weather e = Some ''Strong Winds'')
        = (ex_wind_speed_max e > 12 \<and> \<not> ex_precip_sum e > 15)
    \<and> (ex_extreme_weather e = Some ''Heavy Rain'')
        = (\<not> ex_wind_speed_max e > 12 \<and> ex_precip_sum e > 15)
    \<and> (ex_extreme_weather e = None)
        = (\<not> ex_wind_speed_max e > 12 \<and> \<not> ex_precip_sum e > 15)"
proof -
  from extremes_pipeline_rows [OF assms] obtain d where
    "extremes_project dateToString d = [e]" by blast
  then obtain s where "ex_extreme_temp e = extreme_temp s"
    "ex_extreme_weather e = extreme_weather s" "ex_temp_min e = temp_min s"
    "ex_temp_max e = temp_max s" "ex_wind_speed_max e = wind_speed_max s"
    "ex_precip_sum e = precip_sum s"
    by (auto simp: extremes_project_def split: option.splits)
  then show ?thesis
    by (simp only: extreme_temp_cases extreme_weather_cases simp_thms)
qed

text \<open>
  Claim C3. Let a report of the station have a day summary that meets one of the four
  thresholds (minimum temperature below -5, maximum temperature above 28, maximum wind
  speed above 12, precipitation sum above 15), and let it be the station's only such
  report of its day, as the data model has one report per station and day. Then after
  \<^verbatim>\<open>create_weather_extremes_report\<close> the document of the \<^verbatim>\<open>weather_extremes\<close>
  collection with the \<^verbatim>\<open>_id\<close> of that station and day is the row the pipeline made of
  the report: it carries the four values of the summary, and in it
  \<^item> \<open>extreme_temp\<close> is "Very Cold" exactly when the minimum is below 0, "Very Hot"
    exactly when it is not and the maximum is above 28, and null otherwise;
  \<^item> \<open>extreme_weather\<close> is "Storm" exactly when wind and precipitation both exceed
    their thresholds, "Strong Winds" when only the wind does, "Heavy Rain" when only the
    precipitation does, and null when neither does.
  A day with minimum -6, maximum wind speed 5 and precipitation 2 is "Very Cold" with
  no extreme weather. Moreover every document of the collection afterwards was there
  before or is classified in this way by the four values it carries.
\<close>

theorem extremes_classification:
  assumes "d \<in> set collection" and "rp_station d = Some st"
    and "map_of st ''station_id'' = Some station_id" and "rp_day_summary d = Some s"
    and "temp_min s < - 5 \<or> temp_max s > 28 \<or> wind_speed_max s > 12 \<or> precip_sum s > 15"
    and "\<forall>d' \<in> set collection.
           extremes_match station_id d'
           \<and> dateToString (rp_date d') = dateToString (rp_date d) \<longrightarrow> d' = d"
  shows "(\<exists>e. find_one (\<lambda>x. ex_id x = station_id @ ''-'' @ dateToString (rp_date d))
              (create_weather_extremes_report dateToString station_id collection
                 weather_extremes) = Some e
    \<and> e \<in> set (extremes_pipeline dateToString station_id collection)
    \<and> ex_date e = rp_date d \<and> ex_station_id e = station_id
    \<and> ex_temp_min e = temp_min s \<and> ex_temp_max e = temp_max s
    \<and> ex_wind_speed_max e = wind_speed_max s \<and> ex_precip_sum e = precip_sum s
    \<and> (ex_extreme_temp e = Some ''Very Cold'') = (temp_min s < 0)
    \<and> (ex_extreme_temp e = Some ''Very Hot'') = (\<not> temp_min s < 0 \<and> temp_max s > 28)
    \<and> (ex_extreme_temp e = None) = (\<not> temp_min s < 0 \<and> \<not> temp_max s > 28)
    \<and> (ex_extreme_weather e = Some ''Storm'') = (wind_speed_max s > 12 \<and> precip_sum s > 15)
    \<and> (ex_extreme_weather e = Some ''Strong Winds'')
        = (wind_speed_max s > 12 \<and> \<not> precip_sum s > 15)
    \<and> (ex_extreme_weather e = Some ''Heavy Rain'')
        = (\<not> wind_speed_max s > 12 \<and> precip_sum s > 15)
    \<and> (ex_extreme_weather e = None) = (\<not> wind_speed_max s > 12 \<and> \<not> precip_sum s > 15)
    \<and> (temp_min s = - 6 \<and> wind_speed_max s = 5 \<and> precip_sum s = 2 \<longrightarrow>
         ex_extreme_temp e = Some ''Very Cold'' \<and> ex_extreme_weather e = None))
  \<and> (\<forall>e \<in> set (create_weather_extremes_report dateToString station_id collection
                    weather_extremes).
        e \<in> set weather_extremes
      \<or> (ex_extreme_temp e = Some ''Very Cold'') = (ex_temp_min e < 0)
        \<and> (ex_extreme_temp e = Some ''Very Hot'')
            = (\<not> ex_temp_min e < 0 \<and> ex_temp_max e > 28)
        \<and> (ex_extreme_temp e = None) = (\<not> ex_temp_min e < 0 \<and> \<not> ex_temp_max e > 28)
        \<and> (ex_extreme_weather e = Some ''Storm'')
            = (ex_wind_speed_max e > 12 \<and> ex_precip_sum e > 15)
        \<and> (ex_extreme_weather e = Some ''Strong Winds'')
            = (ex_wind_speed_max e > 12 \<and> \<not> ex_precip_sum e > 15)
        \<and> (ex_extreme_weather e = Some ''Heavy Rain'')
            = (\<not> ex_wind_speed_max e > 12 \<and> ex_precip_sum e > 15)
        \<and> (ex_extreme_weather e = None)
            = (\<not> ex_wind_speed_max e > 12 \<and> \<not> ex_precip_sum e > 15))"
proof (rule conjI)
  let ?k = "station_id @ ''-'' @ dateToString (rp_date d)"
  let ?rows = "extremes_pipeline dateToString station_id collection"
  let ?e = "\<lparr>ex_id = ?k,
          ex_date = rp_date d,
          ex_station_id = station_id,
          ex_station_name = map_of st ''name'',
          ex_extreme_temp = extreme_temp s,
          ex_extreme_weather = extreme_weather s,
          ex_temp_min = temp_min s,
          ex_temp_max = temp_max s,
          ex_wind_speed_max = wind_speed_max s,
          ex_precip_sum = precip_sum s\<rparr>"
  have m: "?e \<in> set ?rows"
    using assms(1-5) by (rule extremes_pipeline_member)
  have p: "extremes_project dateToString d = [?e]"
    using assms(2-4) by (simp add: extremes_project_def)
  have only: "\<forall>y \<in> set (rev ?rows). ex_id y = ?k \<longrightarrow> y = ?e"
  proof (intro ballI impI)
    fix y assume "y \<in> set (rev ?rows)" and k: "ex_id y = ?k"
    then have "y \<in> set ?rows" by simp
    from extremes_pipeline_rows [OF this] obtain d' where
      d': "d' \<in> set collection" "extremes_match station_id d'"
      "ex_id y = station_id @ ''-'' @ dateToString (rp_date d')"
      "extremes_project dateToString d' = [y]"
      by blast
    from d'(3) k have "dateToString (rp_date d') = dateToString (rp_date d)" by simp
    with assms(6) d'(1,2) have "d' = d" by blast
    with d'(4) p show "y = ?e" by simp
  qed
  from m have "?e \<in> set (rev ?rows)" by simp
  moreover have "ex_id ?e = ?k" by simp
  ultimately have "List.find (\<lambda>x. ex_id x = ?k) (rev ?rows) = Some ?e"
    using only by (rule find_only)
  then have found: "find_one (\<lambda>x. ex_id x = ?k)
      (create_weather_extremes_report dateToString station_id collection weather_extremes)
      = Some ?e"
    by (simp add: find_one_def create_weather_extremes_report_def fold_merge_doc_find)
  show "\<exists>e. find_one (\<lambda>x. ex_id x = ?k)
              (create_weather_extremes_report dateToString station_id collection
                 weather_extremes) = Some e
    \<and> e \<in> set ?rows
    \<and> ex_date e = rp_date d \<and> ex_station_id e = station_id
    \<and> ex_temp_min e = temp_min s \<and> ex_temp_max e = temp_max s
    \<and> ex_wind_speed_max e = wind_speed_max s \<and> ex_precip_sum e = precip_sum s
    \<and> (ex_extreme_temp e = Some ''Very Cold'') = (temp_min s < 0)
    \<and> (ex_extreme_temp e = Some ''Very Hot'') = (\<not> temp_min s < 0 \<and> temp_max s > 28)
    \<and> (ex_extreme_temp e = None) = (\<not> temp_min s < 0 \<and> \<not> temp_max s > 28)
    \<and> (ex_extreme_weather e = Some ''Storm'') = (wind_speed_max s > 12 \<and> precip_sum s > 15)
    \<and> (ex_extreme_weather e = Some ''Strong Winds'')
        = (wind_speed_max s > 12 \<and> \<not> precip_sum s > 15)
    \<and> (ex_extreme_weather e = Some ''Heavy Rain'')
        = (\<not> wind_speed_max s > 12 \<and> precip_sum s > 15)
    \<and> (ex_extreme_weather e = None) = (\<not> wind_speed_max s > 12 \<and> \<not> precip_sum s > 15)
    \<and> (temp_min s = - 6 \<and> wind_speed_max s = 5 \<and> precip_sum s = 2 \<longrightarrow>
         ex_extreme_temp e = Some ''Very Cold'' \<and> ex_extreme_weather e = None)"
    by (rule exI [of _ ?e], intro conjI, rule found, rule m)
      (simp_all add: extreme_temp_cases extreme_weather_cases)
next
  show "\<forall>e \<in> set (create_weather_extremes_report dateToString station_id collection
                    weather_extremes).
        e \<in> set weather_extremes
      \<or> (ex_extreme_temp e = Some ''Very Cold'') = (ex_temp_min e < 0)
        \<and> (ex_extreme_temp e = Some ''Very Hot'')
            = (\<not> ex_temp_min e < 0 \<and> ex_temp_max e > 28)
        \<and> (ex_extreme_temp e = None) = (\<not> ex_temp_min e < 0 \<and> \<not> ex_temp_max e > 28)
        \<and> (ex_extreme_weather e = Some ''Storm'')
            = (ex_wind_speed_max e > 12 \<and> ex_precip_sum e > 15)
        \<and> (ex_extreme_weather e = Some ''Strong Winds'')
            = (ex_wind_speed_max e > 12 \<and> \<not> ex_precip_sum e > 15)
        \<and> (ex_extreme_weather e = Some ''Heavy Rain'')
            = (\<not> ex_wind_speed_max e > 12 \<and> ex_precip_sum e > 15)
        \<and> (ex_extreme_weather e = None)
            = (\<not> ex_wind_speed_max e > 12 \<and> \<not> ex_precip_sum e > 15)"
  proof
    fix e
    assume "e \<in> set (create_weather_extremes_report dateToString station_id collection
                    weather_extremes)"
    with fold_merge_doc_set
    have "e \<in> set (extremes_pipeline dateToString station_id collection)
        \<or> e \<in> set weather_extremes"
      unfolding create_weather_extremes_report_def by blast
    with extremes_pipeline_row_consistent [of e dateToString station_id collection]
    show "e \<in> set weather_extremes
      \<or> (ex_extreme_temp e = Some ''Very Cold'') = (ex_temp_min e < 0)
        \<and> (ex_extreme_temp e = Some ''Very Hot'')
            = (\<not> ex_temp_min e < 0 \<and> ex_temp_max e > 28)
        \<and> (ex_extreme_temp e = None) = (\<not> ex_temp_min e < 0 \<and> \<not> ex_temp_max e > 28)
        \<and> (ex_extreme_weather e = Some ''Storm'')
            = (ex_wind_speed_max e > 12 \<and> ex_precip_sum e > 15)
        \<and> (ex_extreme_weather e = Some ''Strong Winds'')
            = (ex_wind_speed_max e > 12 \<and> \<not> ex_precip_sum e > 15)
        \<and> (ex_extreme_weather e = Some ''Heavy Rain'')
            = (\<not> ex_wind_speed_max e > 12 \<and> ex_precip_sum e > 15)
        \<and> (ex_extreme_weather e = None)
            = (\<not> ex_wind_speed_max e > 12 \<and> \<not> ex_precip_sum e > 15)"
      by blast
  qed
qed

text \<open>
  An instance: the London station with a cold day on 10 April 2025 and a hot, stormy
  day on 11 April, and a collection that holds a document of 10 April from an earlier
  run. The document of 10 April is replaced and that of 11 April is added.
\<close>

theorem extremes_classification_witness:
  "(\<exists>e. find_one (\<lambda>x. ex_id x = ''WS-LON002-20250410'')
          (create_weather_extremes_report april_day ''WS-LON002'' extreme_reports
             [earlier_extreme]) = Some e
      \<and> ex_station_id e = ''WS-LON002'' \<and> ex_temp_min e = - 6 \<and> ex_precip_sum e = 2
      \<and> ex_extreme_temp e = Some ''Very Cold'' \<and> ex_extreme_weather e = None)
   \<and> length (create_weather_extremes_report april_day ''WS-LON002'' extreme_reports
               [earlier_extreme]) = 2"
proof -
  let ?d = "(insert_new_weather_report 7)\<lparr>rp_day_summary := Some cold_day\<rparr>"
  let ?st = "[(''station_id'', ''WS-LON002''), (''name'', ''London'')]"
  have h: "?d \<in> set extreme_reports" "rp_station ?d = Some ?st"
    "map_of ?st ''station_id'' = Some ''WS-LON002''" "rp_day_summary ?d = Some cold_day"
    "temp_min cold_day < - 5 \<or> temp_max cold_day > 28 \<or> wind_speed_max cold_day > 12
       \<or> precip_sum cold_day > 15"
    "\<forall>d' \<in> set extreme_reports.
           extremes_match ''WS-LON002'' d'
           \<and> april_day (rp_date d') = april_day (rp_date ?d) \<longrightarrow> d' = ?d"
    by (simp_all add: extreme_reports_def insert_new_weather_report_def cold_day_def
        april_day_def)
  have n: "length (create_weather_extremes_report april_day ''WS-LON002'' extreme_reports
               [earlier_extreme]) = 2"
    by (simp add: create_weather_extremes_report_def extremes_pipeline_def
        extremes_match_def extremes_project_def match_stage_def extreme_reports_def
        insert_new_weather_report_def cold_day_def stormy_day_def april_day_def
        earlier_extreme_def extreme_temp_def extreme_weather_def)
  have a: "april_day 1744243200 = ''20250410''"
    by (simp add: april_day_def)
  from extremes_classification [OF h, of "[earlier_extreme]", THEN conjunct1] n
  show ?thesis
    by (auto simp: insert_new_weather_report_def a cold_day_def)
qed

section \<open>Properties of the owner rename\<close>

lemma apply_update_rename:
  "apply_update [Set_owner_name n, Set_last_modified t, Inc_version 1] d =
     d\<lparr>rp_owner := Some (AList.update ''name'' n
                           (case rp_owner d of None \<Rightarrow> [] | Some ow \<Rightarrow> ow)),
       rp_last_modified := t, rp_version := rp_version d + 1\<rparr>"
  by (simp add: apply_update_def)

lemma rename_weather_reports_owner_nth:
  assumes "k < length collection"
  shows "rename_weather_reports_owner u n t collection ! k =
    (if filter_owner_user_id u (collection ! k)
     then (collection ! k)
            \<lparr>rp_owner := Some (AList.update ''name'' n
                                  (case rp_owner (collection ! k) of None \<Rightarrow> [] | Some ow \<Rightarrow> ow)),
              rp_last_modified := t, rp_version := rp_version (collection ! k) + 1\<rparr>
     else collection ! k)"
  using assms
  by (simp add: rename_weather_reports_owner_def update_many_def apply_update_rename)

lemma rename_weather_station_owner_nth:
  assumes "j < length collection"
  shows "rename_weather_station_owner u n collection ! j =
    (if map_of (sd_owner (collection ! j)) ''user_id'' = Some u
     then (collection ! j)\<lparr>sd_owner := AList.update ''name'' n (sd_owner (collection ! j))\<rparr>
     else collection ! j)"
  using assms by (simp add: rename_weather_station_owner_def update_many_def)

lemma map_of_update_name:
  "map_of (AList.update ''name'' n ow) ''name'' = Some n"
  "map_of (AList.update ''name'' n ow) ''user_id'' = map_of ow ''user_id''"
  by (simp_all add: update_conv')

lemma update_institution_name_fst:
  "fst (update_institution_name u n collection) =
     fst (update_one (\<lambda>d. map_of d ''_id'' = Some u) (AList.update ''institution'' n) collection)"
  by (simp add: update_institution_name_def case_prod_beta)

lemma update_one_length: "length (fst (update_one flt upd ds)) = length ds"
  by (induction ds) (auto simp: case_prod_beta)

lemma update_institution_name_find:
  assumes "find_one (\<lambda>d. map_of d ''_id'' = Some u) collection = Some doc"
  shows "find_one (\<lambda>d. map_of d ''_id'' = Some u)
           (fst (update_institution_name u n collection))
         = Some (AList.update ''institution'' n doc)"
proof -
  from assms have f: "List.find (\<lambda>d. map_of d ''_id'' = Some u) collection = Some doc"
    by (simp add: find_one_def)
  then have "map_of doc ''_id'' = Some u" by (auto simp: find_Some_iff)
  then have "map_of (AList.update ''institution'' n doc) ''_id'' = Some u"
    by (simp add: update_conv')
  with f have "List.find (\<lambda>d. map_of d ''_id'' = Some u)
      (fst (update_one (\<lambda>d. map_of d ''_id'' = Some u) (AList.update ''institution'' n) collection))
      = Some (AList.update ''institution'' n doc)"
    by (rule update_one_find [where flt = "\<lambda>d. map_of d ''_id'' = Some u"])
  then show ?thesis
    by (simp add: find_one_def update_institution_name_fst)
qed

lemma rename_scenario_collections:
  "weather_reports (rename_a_weather_station_owner t db) =
     rename_weather_reports_owner ''camUni'' ''Science Dept. Cambridge University'' t
       (weather_reports db)"
  "weather_stations (rename_a_weather_station_owner t db) =
     rename_weather_station_owner ''camUni'' ''Science Dept. Cambridge University''
       (weather_stations db)"
  "users (rename_a_weather_station_owner t db) =
     fst (update_institution_name ''camUni'' ''Science Dept. Cambridge University'' (users db))"
  by (simp_all add: rename_a_weather_station_owner_def)

text \<open>
  Claim C4. Let a report of the collection have an embedded owner with the user
  identifier \<^verbatim>\<open>camUni\<close>, and let the users collection have a document with that
  \<^verbatim>\<open>_id\<close>, as \<^verbatim>\<open>Institution.get_user_doc\<close> writes one. After
  \<^verbatim>\<open>rename_a_weather_station_owner\<close>
  \<^item> the report's owner has the new name and still the identifier \<^verbatim>\<open>camUni\<close>, its
    version is one more than before and its \<open>last_modified\<close> is the modification date;
  \<^item> every station whose owner has the identifier \<^verbatim>\<open>camUni\<close> has an owner of the
    new name;
  \<^item> the user document has the new name under \<^verbatim>\<open>institution\<close>, the key under which
    an institution's user document holds its name;
  \<^item> the three collections keep their sizes.
\<close>

theorem rename_propagation:
  assumes "k < length (weather_reports db)"
    and "rp_owner (weather_reports db ! k) = Some ow"
    and "map_of ow ''user_id'' = Some ''camUni''"
    and "find_one (\<lambda>u. map_of u ''_id'' = Some ''camUni'') (users db)
           = Some (Institution_get_user_doc C rnd inst)"
  shows "(\<exists>ow'. rp_owner (weather_reports (rename_a_weather_station_owner t db) ! k) = Some ow'
            \<and> map_of ow' ''name'' = Some ''Science Dept. Cambridge University''
            \<and> map_of ow' ''user_id'' = Some ''camUni'')
    \<and> rp_version (weather_reports (rename_a_weather_station_owner t db) ! k)
        = rp_version (weather_reports db ! k) + 1
    \<and> rp_last_modified (weather_reports (rename_a_weather_station_owner t db) ! k) = t
    \<and> (\<forall>j < length (weather_stations db).
          map_of (sd_owner (weather_stations db ! j)) ''user_id'' = Some ''camUni'' \<longrightarrow>
          map_of (sd_owner (weather_stations (rename_a_weather_station_owner t db) ! j)) ''name''
            = Some ''Science Dept. Cambridge University'')
    \<and> (\<exists>u'. find_one (\<lambda>u. map_of u ''_id'' = Some ''camUni'')
                (users (rename_a_weather_station_owner t db)) = Some u'
            \<and> map_of u' ''institution'' = Some ''Science Dept. Cambridge University''
            \<and> u' = Institution_get_user_doc C rnd
                     (inst\<lparr>i_institution_name := ''Science Dept. Cambridge University''\<rparr>))
    \<and> length (weather_reports (rename_a_weather_station_owner t db))
        = length (weather_reports db)
    \<and> length (weather_stations (rename_a_weather_station_owner t db))
        = length (weather_stations db)
    \<and> length (users (rename_a_weather_station_owner t db)) = length (users db)"
proof -
  let ?n = "''Science Dept. Cambridge University''"
  have m: "filter_owner_user_id ''camUni'' (weather_reports db ! k)"
    using assms(2,3) by (simp add: filter_owner_user_id_def)
  have r: "weather_reports (rename_a_weather_station_owner t db) ! k =
      (weather_reports db ! k)
        \<lparr>rp_owner := Some (AList.update ''name'' ?n ow),
          rp_last_modified := t, rp_version := rp_version (weather_reports db ! k) + 1\<rparr>"
    using m assms(2)
    by (simp add: rename_scenario_collections rename_weather_reports_owner_nth [OF assms(1)])
  have report: "\<exists>ow'. rp_owner (weather_reports (rename_a_weather_station_owner t db) ! k)
            = Some ow'
            \<and> map_of ow' ''name'' = Some ?n \<and> map_of ow' ''user_id'' = Some ''camUni''"
    using assms(3) by (simp add: r map_of_update_name)
  have version: "rp_version (weather_reports (rename_a_weather_station_owner t db) ! k)
        = rp_version (weather_reports db ! k) + 1"
    and modified: "rp_last_modified (weather_reports (rename_a_weather_station_owner t db) ! k) = t"
    by (simp_all add: r)
  have stations: "\<forall>j < length (weather_stations db).
          map_of (sd_owner (weather_stations db ! j)) ''user_id'' = Some ''camUni'' \<longrightarrow>
          map_of (sd_owner (weather_stations (rename_a_weather_station_owner t db) ! j)) ''name''
            = Some ?n"
    by (simp add: rename_scenario_collections rename_weather_station_owner_nth
        map_of_update_name)
  have doc: "AList.update ''institution'' ?n (Institution_get_user_doc C rnd inst)
      = Institution_get_user_doc C rnd (inst\<lparr>i_institution_name := ?n\<rparr>)"
    by (simp add: Institution_get_user_doc_def)
  have "map_of (Institution_get_user_doc C rnd (inst\<lparr>i_institution_name := ?n\<rparr>))
          ''institution'' = Some ?n"
    by (simp add: Institution_get_user_doc_def)
  with update_institution_name_find [OF assms(4), of ?n] doc
  have user: "\<exists>u'. find_one (\<lambda>u. map_of u ''_id'' = Some ''camUni'')
                (users (rename_a_weather_station_owner t db)) = Some u'
            \<and> map_of u' ''institution'' = Some ?n
            \<and> u' = Institution_get_user_doc C rnd (inst\<lparr>i_institution_name := ?n\<rparr>)"
    by (simp add: rename_scenario_collections)
  have sizes: "length (weather_reports (rename_a_weather_station_owner t db))
        = length (weather_reports db)"
    "length (weather_stations (rename_a_weather_station_owner t db))
        = length (weather_stations db)"
    "length (users (rename_a_weather_station_owner t db)) = length (users db)"
    by (simp_all add: rename_scenario_collections rename_weather_reports_owner_def
        rename_weather_station_owner_def update_many_def update_institution_name_fst
        update_one_length)
  from report version modified stations user sizes show ?thesis by blast
qed

text \<open>
  In the small Cambridge database, the university's report (the second one) is renamed,
  and its version goes from 1 to 2; the user document is renamed as well.
\<close>

theorem rename_propagation_witness:
  "(\<exists>ow'. rp_owner (weather_reports
                    (rename_a_weather_station_owner 1746093600 cambridge_database) ! 1)
            = Some ow'
          \<and> map_of ow' ''name'' = Some ''Science Dept. Cambridge University'')
   \<and> rp_version (weather_reports
                    (rename_a_weather_station_owner 1746093600 cambridge_database) ! 1) = 2
   \<and> rp_last_modified (weather_reports
                    (rename_a_weather_station_owner 1746093600 cambridge_database) ! 1)
       = 1746093600
   \<and> (\<exists>u'. find_one (\<lambda>u. map_of u ''_id'' = Some ''camUni'')
              (users (rename_a_weather_station_owner 1746093600 cambridge_database)) = Some u'
          \<and> map_of u' ''institution'' = Some ''Science Dept. Cambridge University'')"
proof -
  let ?C = "\<lparr>bcrypt_hashpw = (\<lambda>p s. s @ rev p), fernet_encrypt = (\<lambda>iv p. iv @ p)\<rparr>"
  let ?rnd = "\<lparr>salt = ''$2b$12$'', iv_name = ''a'', iv_email = ''b''\<rparr>"
  have h: "1 < length (weather_reports cambridge_database)"
    "rp_owner (weather_reports cambridge_database ! 1)
       = Some (Institution_get_subset_for_weather_report inst_cambridge_uni)"
    "map_of (Institution_get_subset_for_weather_report inst_cambridge_uni) ''user_id''
       = Some ''camUni''"
    "find_one (\<lambda>u. map_of u ''_id'' = Some ''camUni'') (users cambridge_database)
       = Some (Institution_get_user_doc ?C ?rnd inst_cambridge_uni)"
    by (simp_all add: cambridge_database_def Institution_get_subset_for_weather_report_def
        inst_cambridge_uni_def find_one_def Institution_get_user_doc_def)
  have v: "rp_version (weather_reports cambridge_database ! 1) = 1"
    by (simp add: cambridge_database_def insert_new_weather_report_def)
  from rename_propagation [OF h, of 1746093600] v show ?thesis by auto
qed

section \<open>Properties of the page query\<close>

lemma concat_chunks:
  "concat (map (\<lambda>k. take p (drop (k * p) xs)) [0..<m]) = take (m * p) xs"
proof (induction m)
  case 0
  then show ?case by simp
next
  case (Suc m)
  have "take (m * p) xs @ take p (drop (m * p) xs) = take (m * p + p) xs"
    by (simp add: take_add)
  with Suc show ?case by (simp add: add.commute)
qed

lemma pages_cover:
  assumes "0 < p"
  shows "length xs \<le> ((length xs + p - 1) div p) * p"
proof -
  let ?n = "length xs + p - 1"
  have "?n = ?n div p * p + ?n mod p" by simp
  moreover from assms have "?n mod p < p" by simp
  ultimately show ?thesis using assms by linarith
qed

lemma ceiling_pages:
  assumes "0 < p"
  shows "nat \<lceil>real n / real p\<rceil> = (n + p - 1) div p"
proof -
  let ?q = "(n + p - 1) div p"
  have a: "n + p - 1 = ?q * p + (n + p - 1) mod p" by simp
  have b: "(n + p - 1) mod p < p" using assms by simp
  from a b assms have le: "n \<le> ?q * p" by linarith
  from a assms have gt: "?q * p < n + p" by linarith
  from le assms have "real n / real p \<le> real ?q"
    by (simp add: field_simps flip: of_nat_mult)
  moreover from gt assms have "real ?q - 1 < real n / real p"
    by (simp add: field_simps flip: of_nat_mult of_nat_add)
  ultimately have "\<lceil>real n / real p\<rceil> = int ?q"
    by (intro ceiling_unique) simp_all
  then show ?thesis by simp
qed

text \<open>
  Ascending order on a key that no two rows share leaves one list only: the sort of
  the store gives it whatever order it has among equal keys.
\<close>

lemma filter_distinct_key:
  "distinct (map key zs) \<Longrightarrow> z \<in> set zs \<Longrightarrow> filter (\<lambda>x. key z = key x) zs = [z]"
proof (induction zs)
  case Nil
  then show ?case by simp
next
  case (Cons a zs)
  show ?case
  proof (cases "a = z")
    case True
    with Cons.prems have "\<forall>x \<in> set zs. key z \<noteq> key x" by (auto simp: image_iff)
    then have "filter (\<lambda>x. key z = key x) zs = []" by (simp add: filter_empty_conv)
    with True show ?thesis by simp
  next
    case False
    with Cons.prems have "z \<in> set zs" "key z \<noteq> key a" by (auto simp: image_iff)
    with Cons show ?thesis by simp
  qed
qed

lemma sorted_distinct_key_unique:
  assumes "distinct (map key rows)" and "sorted (map key ys)" and "mset ys = mset rows"
  shows "ys = sort_key key rows"
proof -
  from assms(3) have "mset (map key ys) = mset (map key rows)" by simp
  with assms(1) have d: "distinct (map key ys)"
    by (metis mset_eq_imp_distinct_iff)
  from assms(3) have s: "set ys = set rows" by (rule mset_eq_setD)
  have "sort_key key rows = ys"
  proof (rule properties_for_sort_key)
    show "mset ys = mset rows" by (rule assms(3))
    show "sorted (map key ys)" by (rule assms(2))
    fix k assume k: "k \<in> set ys"
    with s have "k \<in> set rows" by simp
    with assms(1) have "filter (\<lambda>x. key k = key x) rows = [k]" by (rule filter_distinct_key)
    moreover from d k have "filter (\<lambda>x. key k = key x) ys = [k]" by (rule filter_distinct_key)
    ultimately show "filter (\<lambda>x. key k = key x) ys = filter (\<lambda>x. key k = key x) rows"
      by simp
  qed
  then show ?thesis by simp
qed

lemma sort_stage_distinct:
  assumes "distinct (map key rows)"
  shows "sort_stage key tie rows = sort_key key rows"
  using assms unfolding sort_stage_def
  by (intro sorted_distinct_key_unique) simp_all

lemma position_nth:
  assumes "distinct ys" and "i < length ys"
  shows "length (takeWhile (\<lambda>x. x \<noteq> ys ! i) ys) = i"
proof -
  have "takeWhile (\<lambda>x. x \<noteq> ys ! i) ys = take i ys"
  proof (rule takeWhile_eq_take_P_nth)
    fix j assume "j < i" "j < length ys"
    with assms show "ys ! j \<noteq> ys ! i" by (simp add: nth_eq_iff_index_eq)
  next
    show "\<not> ys ! i \<noteq> ys ! i" by simp
  qed
  with assms(2) show ?thesis by simp
qed

lemma position_map:
  assumes "distinct ys"
  shows "map (\<lambda>r. length (takeWhile (\<lambda>x. x \<noteq> r) ys)) ys = [0..<length ys]"
  using assms by (intro nth_equalityI) (simp_all add: position_nth)

text \<open>
  The parameter \<open>tie\<close> leaves the store every order it may choose: any list that is
  sorted by the key and has the rows of the input is the output of \<open>sort_stage\<close> for
  some \<open>tie\<close> (for rows that are pairwise different, as the readings of different time
  stamps are).
\<close>

lemma sort_stage_any_order:
  assumes "distinct rows" and "sorted (map key ys)" and "mset ys = mset rows"
  shows "\<exists>tie. sort_stage key tie rows = ys"
proof -
  let ?tie = "\<lambda>r. length (takeWhile (\<lambda>x. x \<noteq> r) ys)"
  from assms(1,3) have d: "distinct ys" by (metis mset_eq_imp_distinct_iff)
  then have m: "map ?tie ys = [0..<length ys]" by (rule position_map)
  from assms(3) have "mset (map ?tie rows) = mset (map ?tie ys)" by simp
  with m have "distinct (map ?tie rows)"
    by (metis distinct_upt mset_eq_imp_distinct_iff)
  moreover from m have "sorted (map ?tie ys)" by simp
  ultimately have "ys = sort_key ?tie rows"
    using assms(3) by (rule sorted_distinct_key_unique)
  moreover from assms(2) have "sort_key key ys = ys" by (rule sort_key_id_if_sorted)
  ultimately have "sort_stage key ?tie rows = ys" by (simp add: sort_stage_def)
  then show ?thesis by blast
qed

lemma page_rows:
  assumes "1 \<le> page_size"
  shows "get_weather_balloon_readings_by_page tie db station_id launch_date (int k + 1) page_size
    = Inr (map project_reading
             (take (nat page_size) (drop (k * nat page_size)
                (sort_stage (\<lambda>row. rr_gpheight (snd row)) tie
                   (matched_readings db station_id launch_date)))))"
proof -
  from assms have "nat (int k * page_size) = k * nat page_size"
    by (simp add: nat_mult_distrib)
  moreover from assms have "\<not> int k * page_size < 0"
    by (simp add: not_less)
  ultimately show ?thesis
    using assms
    by (simp add: get_weather_balloon_readings_by_page_def skip_stage_def limit_stage_def
        bind_err_def Let_def)
qed

lemma insort_key_map:
  "insort_key f (g x) (map g xs) = map g (insort_key (\<lambda>y. f (g y)) x xs)"
  by (induction xs) simp_all

lemma sort_key_map:
  "sort_key f (map g xs) = map g (sort_key (\<lambda>y. f (g y)) xs)"
  by (induction xs) (simp_all add: insort_key_map)

lemma matched_readings_single:
  assumes "match_stage (page_match station_id launch_date) db = [b]"
    and "bl_readings b = Some rs"
  shows "matched_readings db station_id launch_date = map (Pair b) rs"
  using assms by (simp add: matched_readings_def unwind_stage_def)

text \<open>
  Claim C5, as amended. Every call of the page query sorts anew, and the store may
  order readings of equal height differently at each call; and the query matches the
  launches of a station by the day, not one launch. So let the page size be at least 1,
  let the readings of all launches the query matches have pairwise distinct heights,
  and let \<open>N\<close> be their number. Then whatever order \<open>tie k\<close> the store gives equal
  keys at the call for page \<open>k + 1\<close>, the pages 1 to \<open>\<lceil>N / page_size\<rceil>\<close> are all
  returned, and concatenated in page order they are the matched readings sorted by
  ascending geopotential height, each projected to time stamp, height and
  temperature: every reading once, none missing. Page 1 skips nothing. When the query
  matches one launch, these are the readings of that launch.
\<close>

theorem pagination_complete:
  assumes "1 \<le> page_size"
    and "distinct (map (\<lambda>row. rr_gpheight (snd row))
           (matched_readings db station_id launch_date))"
  shows "\<exists>pages.
      length pages
        = nat \<lceil>real (length (matched_readings db station_id launch_date))
                / real_of_int page_size\<rceil>
    \<and> (\<forall>k < length pages.
          get_weather_balloon_readings_by_page (tie k) db station_id launch_date
            (int k + 1) page_size = Inr (pages ! k))
    \<and> concat pages
        = map project_reading
            (sort_key (\<lambda>row. rr_gpheight (snd row))
               (matched_readings db station_id launch_date))
    \<and> sorted (map pg_gpheight (concat pages))
    \<and> mset (concat pages)
        = mset (map project_reading (matched_readings db station_id launch_date))
    \<and> (0 < length pages \<longrightarrow> pages ! 0 = take (nat page_size) (concat pages))
    \<and> (\<forall>b rs. match_stage (page_match station_id launch_date) db = [b]
               \<and> bl_readings b = Some rs \<longrightarrow>
           length pages = nat \<lceil>real (length rs) / real_of_int page_size\<rceil>
         \<and> concat pages
             = map (\<lambda>r. \<lparr>pg_timestamp = rr_timestamp r, pg_gpheight = rr_gpheight r,
                          pg_temp = rr_temp r\<rparr>)
                 (sort_key rr_gpheight rs))"
proof -
  let ?p = "nat page_size"
  let ?key = "\<lambda>row :: balloon_doc \<times> radiosonde_reading_doc. rr_gpheight (snd row)"
  let ?M = "matched_readings db station_id launch_date"
  let ?R = "sort_key ?key ?M"
  let ?np = "(length ?M + ?p - 1) div ?p"
  let ?pages = "map (\<lambda>k. map project_reading (take ?p (drop (k * ?p) ?R))) [0..<?np]"
  from assms(1) have p: "0 < ?p" by simp
  have same: "sort_stage ?key t ?M = ?R" for t
    using assms(2) by (rule sort_stage_distinct)
  from assms(1) have "real ?p = real_of_int page_size" by simp
  with ceiling_pages [OF p, of "length ?M"]
  have np: "nat \<lceil>real (length ?M) / real_of_int page_size\<rceil> = ?np" by simp
  have len: "length ?pages = nat \<lceil>real (length ?M) / real_of_int page_size\<rceil>"
    unfolding np by simp
  have each: "\<forall>k < length ?pages.
      get_weather_balloon_readings_by_page (tie k) db station_id launch_date (int k + 1)
        page_size = Inr (?pages ! k)"
    using page_rows [OF assms(1)] by (simp add: same del: of_nat_nat)
  have "concat ?pages
      = map project_reading (concat (map (\<lambda>k. take ?p (drop (k * ?p) ?R)) [0..<?np]))"
    by (simp add: map_concat comp_def)
  also have "\<dots> = map project_reading (take (?np * ?p) ?R)"
    by (simp only: concat_chunks)
  also have "\<dots> = map project_reading ?R"
    using pages_cover [OF p, of ?M] by simp
  finally have cat: "concat ?pages = map project_reading ?R" .
  have "map pg_gpheight (map project_reading ?R) = map ?key ?R"
    by (simp add: project_reading_def comp_def)
  then have srt: "sorted (map pg_gpheight (concat ?pages))"
    by (simp only: cat sorted_sort_key)
  have ms: "mset (concat ?pages) = mset (map project_reading ?M)"
    unfolding cat by simp
  have first: "0 < length ?pages \<longrightarrow> ?pages ! 0 = take ?p (concat ?pages)"
  proof
    assume "0 < length ?pages"
    then have "?pages ! 0 = map project_reading (take ?p ?R)" by simp
    also have "\<dots> = take ?p (map project_reading ?R)" by (simp add: take_map)
    also have "\<dots> = take ?p (concat ?pages)" by (simp only: cat)
    finally show "?pages ! 0 = take ?p (concat ?pages)" .
  qed
  have one: "\<forall>b rs. match_stage (page_match station_id launch_date) db = [b]
               \<and> bl_readings b = Some rs \<longrightarrow>
           length ?pages = nat \<lceil>real (length rs) / real_of_int page_size\<rceil>
         \<and> concat ?pages
             = map (\<lambda>r. \<lparr>pg_timestamp = rr_timestamp r, pg_gpheight = rr_gpheight r,
                          pg_temp = rr_temp r\<rparr>)
                 (sort_key rr_gpheight rs)"
  proof (intro allI impI)
    fix b rs
    assume "match_stage (page_match station_id launch_date) db = [b]
        \<and> bl_readings b = Some rs"
    then have M: "?M = map (Pair b) rs" by (simp add: matched_readings_single)
    have "map project_reading (sort_key ?key (map (Pair b) rs))
        = map (\<lambda>r. \<lparr>pg_timestamp = rr_timestamp r, pg_gpheight = rr_gpheight r,
                     pg_temp = rr_temp r\<rparr>) (sort_key rr_gpheight rs)"
      by (simp add: sort_key_map project_reading_def comp_def)
    with M show "length ?pages = nat \<lceil>real (length rs) / real_of_int page_size\<rceil>
         \<and> concat ?pages
             = map (\<lambda>r. \<lparr>pg_timestamp = rr_timestamp r, pg_gpheight = rr_gpheight r,
                          pg_temp = rr_temp r\<rparr>)
                 (sort_key rr_gpheight rs)"
      using len cat by simp
  qed
  from len each cat srt ms first one show ?thesis by blast
qed

text \<open>
  Claim C5 as stated fails twice. A launch has two readings at height 500; asked for
  pages of one reading, the store orders the two by input for page 1 and the warmer
  first for page 2, and both pages are the reading of temperature 1: it is listed
  twice, the other never. And a station has launches at 8:00 (heights 100 and 300) and
  at 20:00 (heights 200 and 400) of one day; the first launch has two readings, so one
  page of two covers it, but page 1 is the heights 100 and 200.
\<close>

theorem pagination_complete_counterexample:
  "get_weather_balloon_readings_by_page input_order equal_height_reports
     ''03743'' 1743465600 1 1
     = Inr [\<lparr>pg_timestamp = 1743494400, pg_gpheight = 500, pg_temp = 1\<rparr>]
   \<and> get_weather_balloon_readings_by_page warmer_first equal_height_reports
       ''03743'' 1743465600 2 1
     = Inr [\<lparr>pg_timestamp = 1743494400, pg_gpheight = 500, pg_temp = 1\<rparr>]
   \<and> get_weather_balloon_readings_by_page input_order same_day_reports
       ''03743'' 1743465600 1 2
     = Inr [\<lparr>pg_timestamp = 1743494400, pg_gpheight = 100, pg_temp = 9\<rparr>,
            \<lparr>pg_timestamp = 1743537600, pg_gpheight = 200, pg_temp = 8\<rparr>]"
  by (simp add: get_weather_balloon_readings_by_page_def skip_stage_def limit_stage_def
      bind_err_def sort_stage_def matched_readings_def unwind_stage_def match_stage_def
      page_match_def equal_height_reports_def same_day_reports_def larkhill_launch_def
      sonde_reading_def input_order_def warmer_first_def project_reading_def)

text \<open>
  The first Larkhill launch is the only one of its day and has five readings at
  different heights; with two readings a page, and the store changing its order of
  equal keys from page to page, the pages 1, 2 and 3 together list the heights 130,
  320, 510, 700 and 905 in this order.
\<close>

theorem pagination_complete_witness:
  "\<exists>pages. length pages = 3
     \<and> get_weather_balloon_readings_by_page input_order larkhill_reports
         ''03743'' 1743465600 1 2 = Inr (pages ! 0)
     \<and> get_weather_balloon_readings_by_page warmer_first larkhill_reports
         ''03743'' 1743465600 2 2 = Inr (pages ! 1)
     \<and> get_weather_balloon_readings_by_page input_order larkhill_reports
         ''03743'' 1743465600 3 2 = Inr (pages ! 2)
     \<and> map pg_gpheight (concat pages) = [130, 320, 510, 700, 905]
     \<and> map pg_temp (concat pages) = [9, 8, 6, 4, 2]"
proof -
  let ?rs = "[sonde_reading 1743494400 130 9, sonde_reading 1743494460 510 6,
         sonde_reading 1743494430 320 8, sonde_reading 1743494520 905 2,
         sonde_reading 1743494490 700 4]"
  let ?b = "larkhill_launch 1743494400 ?rs"
  let ?tie = "\<lambda>k :: nat. if even k then input_order else warmer_first"
  have m: "match_stage (page_match ''03743'' 1743465600) larkhill_reports = [?b]"
    and r: "bl_readings ?b = Some ?rs"
    by (simp_all add: match_stage_def page_match_def larkhill_reports_def larkhill_launch_def)
  have M: "matched_readings larkhill_reports ''03743'' 1743465600 = map (Pair ?b) ?rs"
    using m r by (rule matched_readings_single)
  have h: "(1::int) \<le> 2"
    "distinct (map (\<lambda>row. rr_gpheight (snd row))
       (matched_readings larkhill_reports ''03743'' 1743465600))"
    by (simp_all add: M sonde_reading_def)
  have s: "sort_key rr_gpheight ?rs =
      [sonde_reading 1743494400 130 9, sonde_reading 1743494430 320 8,
       sonde_reading 1743494460 510 6, sonde_reading 1743494490 700 4,
       sonde_reading 1743494520 905 2]"
    by (simp add: sonde_reading_def)
  from pagination_complete [OF h, of ?tie] obtain pages where
    e: "\<forall>k < length pages.
          get_weather_balloon_readings_by_page (?tie k) larkhill_reports ''03743'' 1743465600
            (int k + 1) 2 = Inr (pages ! k)"
    and one: "\<forall>b rs. match_stage (page_match ''03743'' 1743465600) larkhill_reports = [b]
               \<and> bl_readings b = Some rs \<longrightarrow>
           length pages = nat \<lceil>real (length rs) / real_of_int 2\<rceil>
         \<and> concat pages
             = map (\<lambda>r. \<lparr>pg_timestamp = rr_timestamp r, pg_gpheight = rr_gpheight r,
                          pg_temp = rr_temp r\<rparr>)
                 (sort_key rr_gpheight rs)"
    by blast
  from one m r have l: "length pages = nat \<lceil>real (length ?rs) / real_of_int 2\<rceil>"
    and c: "concat pages
             = map (\<lambda>r. \<lparr>pg_timestamp = rr_timestamp r, pg_gpheight = rr_gpheight r,
                          pg_temp = rr_temp r\<rparr>)
                 (sort_key rr_gpheight ?rs)"
    by blast+
  have "\<lceil>5 / 2 :: real\<rceil> = 3" by (simp add: ceiling_eq_iff)
  with l have l3: "length pages = 3" by simp
  have "get_weather_balloon_readings_by_page input_order larkhill_reports
         ''03743'' 1743465600 1 2 = Inr (pages ! 0)"
    "get_weather_balloon_readings_by_page warmer_first larkhill_reports
         ''03743'' 1743465600 2 2 = Inr (pages ! 1)"
    "get_weather_balloon_readings_by_page input_order larkhill_reports
         ''03743'' 1743465600 3 2 = Inr (pages ! 2)"
    using e [rule_format, of 0] e [rule_format, of 1] e [rule_format, of 2] l3
    by simp_all
  moreover have "map pg_gpheight (concat pages) = [130, 320, 510, 700, 905]"
    "map pg_temp (concat pages) = [9, 8, 6, 4, 2]"
    unfolding c s by (simp_all add: sonde_reading_def)
  ultimately show ?thesis using l3 by (intro exI [of _ pages]) simp
qed

section \<open>Properties of the user projections\<close>

lemma get_user_doc_password:
  "map_of (get_user_doc C rnd u) ''password''
     = Some (bcrypt_hashpw C (password_of u) (salt rnd))"
  by (cases u)
    (simp_all add: Institution_get_user_doc_def WeatherWatcher_get_user_doc_def
      Administrator_get_user_doc_def hash_password_def)

lemma get_user_doc_password_entries:
  "(''password'', v) \<in> set (get_user_doc C rnd u)
     \<Longrightarrow> v = bcrypt_hashpw C (password_of u) (salt rnd)"
  by (cases u)
    (auto simp add: Institution_get_user_doc_def WeatherWatcher_get_user_doc_def
      Administrator_get_user_doc_def hash_password_def)

lemma get_user_doc_hash_only:
  "bcrypt_hashpw C p (salt rnd) = bcrypt_hashpw C (password_of u) (salt rnd)
     \<Longrightarrow> get_user_doc C rnd (with_password p u) = get_user_doc C rnd u"
  by (cases u)
    (simp_all add: Institution_get_user_doc_def WeatherWatcher_get_user_doc_def
      Administrator_get_user_doc_def hash_password_def)

lemma get_user_doc_other_fields:
  "filter (\<lambda>kv. fst kv \<noteq> ''password'') (get_user_doc C rnd (with_password p u))
     = filter (\<lambda>kv. fst kv \<noteq> ''password'') (get_user_doc C rnd u)"
  by (cases u)
    (simp_all add: Institution_get_user_doc_def WeatherWatcher_get_user_doc_def
      Administrator_get_user_doc_def)

lemma subsets_ignore_password:
  "get_subset_for_weather_station (with_password p u) = get_subset_for_weather_station u"
  "get_subset_for_weather_report (with_password p u) = get_subset_for_weather_report u"
  by (cases u;
      simp add: Institution_get_subset_for_weather_station_def
        WeatherWatcher_get_subset_for_weather_station_def
        Institution_get_subset_for_weather_report_def
        WeatherWatcher_get_subset_for_weather_report_def)+

lemma subset_keys:
  "get_subset_for_weather_station u = Inr doc
     \<Longrightarrow> keys doc \<subseteq> {''owner_type'', ''user_id'', ''name'', ''contact'', ''email'', ''telephone''}"
  "get_subset_for_weather_report u = Inr doc
     \<Longrightarrow> keys doc \<subseteq> {''owner_type'', ''user_id'', ''name''}"
  by (cases u;
      auto simp add: keys_def Institution_get_subset_for_weather_station_def
        WeatherWatcher_get_subset_for_weather_station_def
        Institution_get_subset_for_weather_report_def
        WeatherWatcher_get_subset_for_weather_report_def)+

text \<open>
  Claim C6. Let \<^verbatim>\<open>bcrypt.hashpw\<close> be any function that never returns the password it
  is given. Then for every user of the three variants and every plaintext password,
  with \<open>salt rnd\<close> the salt that \<^verbatim>\<open>bcrypt.gensalt()\<close> draws:
  \<^item> the user document holds under \<^verbatim>\<open>password\<close> what \<^verbatim>\<open>bcrypt.hashpw\<close> returns on
    the plaintext and the salt, which is not the plaintext, and holds nothing else
    under that key;
  \<^item> the document depends on the plaintext through that hash only: a user with another
    password of the same hash has the same document, and the fields other than
    \<^verbatim>\<open>password\<close> are the same for any two passwords;
  \<^item> the two embedding projections are the same for any two users that differ only in
    the password (for an administrator, who has neither projection, both calls raise),
    and a subset document has no key \<^verbatim>\<open>password\<close>: its keys are among
    \<^verbatim>\<open>owner_type\<close>, \<^verbatim>\<open>user_id\<close>, \<^verbatim>\<open>name\<close>, \<^verbatim>\<open>contact\<close>, \<^verbatim>\<open>email\<close> and
    \<^verbatim>\<open>telephone\<close>.
\<close>

theorem no_credentials_in_projections:
  assumes "\<forall>p s. bcrypt_hashpw C p s \<noteq> p"
  shows "map_of (get_user_doc C rnd u) ''password''
     = Some (bcrypt_hashpw C (password_of u) (salt rnd))
   \<and> map_of (get_user_doc C rnd u) ''password'' \<noteq> Some (password_of u)
   \<and> (\<forall>v. (''password'', v) \<in> set (get_user_doc C rnd u) \<longrightarrow>
         v = bcrypt_hashpw C (password_of u) (salt rnd) \<and> v \<noteq> password_of u)
   \<and> (bcrypt_hashpw C p (salt rnd) = bcrypt_hashpw C (password_of u) (salt rnd) \<longrightarrow>
        get_user_doc C rnd (with_password p u) = get_user_doc C rnd u)
   \<and> filter (\<lambda>kv. fst kv \<noteq> ''password'') (get_user_doc C rnd (with_password p u))
       = filter (\<lambda>kv. fst kv \<noteq> ''password'') (get_user_doc C rnd u)
   \<and> get_subset_for_weather_station (with_password p u) = get_subset_for_weather_station u
   \<and> get_subset_for_weather_report (with_password p u) = get_subset_for_weather_report u
   \<and> (\<forall>doc. get_subset_for_weather_station u = Inr doc \<longrightarrow>
         ''password'' \<notin> keys doc
         \<and> keys doc \<subseteq> {''owner_type'', ''user_id'', ''name'', ''contact'', ''email'',
                         ''telephone''})
   \<and> (\<forall>doc. get_subset_for_weather_report u = Inr doc \<longrightarrow>
         ''password'' \<notin> keys doc \<and> keys doc \<subseteq> {''owner_type'', ''user_id'', ''name''})"
proof -
  have h: "bcrypt_hashpw C (password_of u) (salt rnd) \<noteq> password_of u"
    using assms by blast
  have c1: "map_of (get_user_doc C rnd u) ''password''
     = Some (bcrypt_hashpw C (password_of u) (salt rnd))"
    by (rule get_user_doc_password)
  have c2: "map_of (get_user_doc C rnd u) ''password'' \<noteq> Some (password_of u)"
    using h by (simp add: get_user_doc_password)
  have c3: "\<forall>v. (''password'', v) \<in> set (get_user_doc C rnd u) \<longrightarrow>
         v = bcrypt_hashpw C (password_of u) (salt rnd) \<and> v \<noteq> password_of u"
    using h by (auto dest: get_user_doc_password_entries)
  have a: "\<forall>doc. get_subset_for_weather_station u = Inr doc \<longrightarrow>
         ''password'' \<notin> keys doc
         \<and> keys doc \<subseteq> {''owner_type'', ''user_id'', ''name'', ''contact'', ''email'',
                         ''telephone''}"
    using subset_keys(1) [of u] by auto
  have b: "\<forall>doc. get_subset_for_weather_report u = Inr doc \<longrightarrow>
         ''password'' \<notin> keys doc \<and> keys doc \<subseteq> {''owner_type'', ''user_id'', ''name''}"
    using subset_keys(2) [of u] by auto
  from c1 c2 c3 get_user_doc_hash_only get_user_doc_other_fields
    subsets_ignore_password a b
  show ?thesis by blast
qed

text \<open>
  An instance, with the stand-in hash: the university's password \<^verbatim>\<open>Pa$$1234\<close> is
  stored as the salt and nine stars; \<^verbatim>\<open>Pa55word\<close> has the same hash and gives the
  same user document; the station subset of the university is the same for both and
  has no \<^verbatim>\<open>password\<close> key.
\<close>

theorem no_credentials_in_projections_witness:
  "map_of (get_user_doc stars \<lparr>salt = ''$2b$12$'', iv_name = ''a'', iv_email = ''b''\<rparr>
             (An_Institution inst_cambridge_uni)) ''password'' = Some ''$2b$12$*********''
   \<and> map_of (get_user_doc stars \<lparr>salt = ''$2b$12$'', iv_name = ''a'', iv_email = ''b''\<rparr>
             (An_Institution inst_cambridge_uni)) ''password'' \<noteq> Some ''Pa$$1234''
   \<and> get_user_doc stars \<lparr>salt = ''$2b$12$'', iv_name = ''a'', iv_email = ''b''\<rparr>
         (with_password ''Pa55word'' (An_Institution inst_cambridge_uni))
      = get_user_doc stars \<lparr>salt = ''$2b$12$'', iv_name = ''a'', iv_email = ''b''\<rparr>
         (An_Institution inst_cambridge_uni)
   \<and> get_subset_for_weather_station (with_password ''Pa55word'' (An_Institution inst_cambridge_uni))
      = Inr (Institution_get_subset_for_weather_station inst_cambridge_uni)
   \<and> ''password'' \<notin> keys (Institution_get_subset_for_weather_station inst_cambridge_uni)
   \<and> ''password'' \<notin> keys (Institution_get_subset_for_weather_report inst_cambridge_uni)"
proof -
  have "\<forall>p s. bcrypt_hashpw stars p s \<noteq> p"
    by (auto simp: stars_def dest: arg_cong [where f = length])
  from no_credentials_in_projections [OF this,
      of "\<lparr>salt = ''$2b$12$'', iv_name = ''a'', iv_email = ''b''\<rparr>"
      "An_Institution inst_cambridge_uni" "''Pa55word''"]
  show ?thesis
    by (simp add: stars_def inst_cambridge_uni_def)
qed

section \<open>Properties of the weather report projection\<close>

lemma keys_update: "keys (AList.update k v doc) = insert k (keys doc)"
  by (simp add: keys_def dom_update)

lemma keys_set_if_present:
  "keys (set_if_present k v f doc) = keys doc \<union> (if v = None then {} else {k})"
  by (cases v) (simp_all add: set_if_present_def keys_update)

lemma keys_single: "keys [(k, v)] = {k}"
  by (simp add: keys_def)

text \<open>The keys an observation contributes besides \<^verbatim>\<open>timestamp\<close>.\<close>

lemma observation_doc_keys:
  assumes "WeatherObservation_get_doc_for_weather_report fs ob = Inr d"
  shows "keys d =
      {''timestamp''}
    \<union> (if ob_category ob = None then {} else {''category''})
    \<union> (if ob_temp ob = None then {} else {''temp''})
    \<union> (if ob_description ob = None then {} else {''description''})
    \<union> (if ob_humidity ob = None then {} else {''humidity''})
    \<union> (if ob_precip ob = None then {} else {''precip''})
    \<union> (if ob_sample_duration ob = None then {} else {''sample_duration''})
    \<union> (if ob_pressure ob = None then {} else {''pressure''})
    \<union> (if ob_wind_speed ob = None then {} else {''wind_speed''})
    \<union> (if ob_wind_direction ob = None then {} else {''wind_direction''})
    \<union> (if ob_photo_filename ob = None then {} else {''photo''})"
proof -
  let ?doc = "set_if_present ''wind_direction'' (ob_wind_direction ob) SNum
     (set_if_present ''wind_speed'' (ob_wind_speed ob) SNum
     (set_if_present ''pressure'' (ob_pressure ob) SNum
     (set_if_present ''sample_duration'' (ob_sample_duration ob) SInt
     (set_if_present ''precip'' (ob_precip ob) SNum
     (set_if_present ''humidity'' (ob_humidity ob) SNum
     (set_if_present ''description'' (ob_description ob) SStr
     (set_if_present ''temp'' (ob_temp ob) SNum
     (set_if_present ''category'' (ob_category ob) (\<lambda>c. SStr (category_value c))
        [(''timestamp'', SDate (ob_timestamp ob))]))))))))"
  have k: "keys ?doc =
      {''timestamp''}
    \<union> (if ob_category ob = None then {} else {''category''})
    \<union> (if ob_temp ob = None then {} else {''temp''})
    \<union> (if ob_description ob = None then {} else {''description''})
    \<union> (if ob_humidity ob = None then {} else {''humidity''})
    \<union> (if ob_precip ob = None then {} else {''precip''})
    \<union> (if ob_sample_duration ob = None then {} else {''sample_duration''})
    \<union> (if ob_pressure ob = None then {} else {''pressure''})
    \<union> (if ob_wind_speed ob = None then {} else {''wind_speed''})
    \<union> (if ob_wind_direction ob = None then {} else {''wind_direction''})"
    by (simp only: keys_set_if_present keys_single)
  show ?thesis
  proof (cases "ob_photo_filename ob")
    case None
    with assms have "d = ?doc"
      by (simp add: WeatherObservation_get_doc_for_weather_report_def Let_def)
    with None show ?thesis by (simp only: k) simp
  next
    case (Some name)
    with assms obtain image_data where "fs name = Some image_data"
      and "d = AList.update ''photo'' (SBinary image_data) ?doc"
      by (auto simp: WeatherObservation_get_doc_for_weather_report_def Let_def
          split: option.splits)
    with Some show ?thesis by (simp only: keys_update k) simp
  qed
qed

lemma observation_doc_returns:
  "(\<exists>d. WeatherObservation_get_doc_for_weather_report fs ob = Inr d)
     = (\<forall>name. ob_photo_filename ob = Some name \<longrightarrow> fs name \<noteq> None)"
  by (auto simp: WeatherObservation_get_doc_for_weather_report_def Let_def
      split: option.splits)

lemma map_err_Inr:
  "map_err f xs = Inr ys \<Longrightarrow> list_all2 (\<lambda>x y. f x = Inr y) xs ys"
proof (induction xs arbitrary: ys)
  case Nil
  then show ?case by simp
next
  case (Cons x xs)
  from Cons.prems obtain y zs where "f x = Inr y" "map_err f xs = Inr zs" "ys = y # zs"
    by (auto simp: bind_err_def split: sum.splits)
  with Cons.IH [of zs] show ?case by simp
qed

lemma map_err_returns:
  "(\<exists>ys. map_err f xs = Inr ys) = (\<forall>x \<in> set xs. \<exists>y. f x = Inr y)"
proof (induction xs)
  case Nil
  then show ?case by simp
next
  case (Cons x xs)
  show ?case
  proof (cases "f x")
    case (Inl e)
    then show ?thesis by (simp add: bind_err_def)
  next
    case fx: (Inr y)
    show ?thesis
    proof (cases "map_err f xs")
      case (Inl e)
      with Cons.IH fx show ?thesis by (simp add: bind_err_def)
    next
      case (Inr zs)
      with Cons.IH fx show ?thesis by (simp add: bind_err_def)
    qed
  qed
qed

lemma set_if_present_simps:
  "set_if_present k None f doc = doc"
  "set_if_present k (Some x) f doc = AList.update k (f x) doc"
  by (simp_all add: set_if_present_def)

lemma map_of_set_if_present:
  "k' \<noteq> k \<Longrightarrow> map_of (set_if_present k v f doc) k' = map_of doc k'"
  by (cases v) (simp_all add: set_if_present_def update_conv')

text \<open>The document before the owner is looked at, and the steps after it.\<close>

lemma get_weather_report_doc_unfold:
  "get_weather_report_doc fs r =
     (case (case wr_owner r of None \<Rightarrow> Inr None
            | Some ow \<Rightarrow> bind_err (get_subset_for_weather_report ow) (\<lambda>sub. Inr (Some sub))) of
        Inl e \<Rightarrow> Inl e
      | Inr sub \<Rightarrow>
          (case (case wr_observations r of None \<Rightarrow> Inr None
                 | Some obs \<Rightarrow>
                     bind_err (map_err (WeatherObservation_get_doc_for_weather_report fs) obs)
                       (\<lambda>ds. Inr (Some ds))) of
             Inl e \<Rightarrow> Inl e
           | Inr ds \<Rightarrow>
               Inr (set_if_present ''day_summary'' (wr_day_summary r) FDaySummary
                     (set_if_present ''observations'' ds FObservations
                     (set_if_present ''readings'' (wr_readings r)
                        (\<lambda>rs. FReadings (map WeatherStationReading_get_doc_for_weather_report rs))
                     (set_if_present ''owner'' sub FSubdoc
                     (set_if_present ''station'' (wr_station r)
                        (\<lambda>s. FSubdoc (WeatherStation_get_subset_for_weather_report s))
                        [(''date'', FDate (wr_date r)),
                         (''version'', FInt (wr_version r)),
                         (''last_modified'', FDate (wr_last_modified r)),
                         (''location'', FGeometry (wr_location r))])))))))"
  by (simp add: get_weather_report_doc_def Let_def bind_err_def set_if_present_simps
      split: option.splits sum.splits)

lemma owner_subset_returns:
  "(\<exists>sub. (case wr_owner r of None \<Rightarrow> Inr None
           | Some ow \<Rightarrow> bind_err (get_subset_for_weather_report ow) (\<lambda>sub. Inr (Some sub)))
          = Inr sub)
     = (\<forall>a. wr_owner r \<noteq> Some (An_Administrator a))"
proof (cases "wr_owner r")
  case None
  then show ?thesis by simp
next
  case (Some ow)
  then show ?thesis by (cases ow) (simp_all add: bind_err_def)
qed

lemma owner_subset_present:
  "(case wr_owner r of None \<Rightarrow> Inr None
    | Some ow \<Rightarrow> bind_err (get_subset_for_weather_report ow) (\<lambda>sub. Inr (Some sub))) = Inr sub
     \<Longrightarrow> (sub = None) = (wr_owner r = None)"
  by (auto simp: bind_err_def split: option.splits sum.splits)

lemma observation_docs_present:
  assumes "(case wr_observations r of None \<Rightarrow> Inr None
          | Some obs \<Rightarrow>
              bind_err (map_err (WeatherObservation_get_doc_for_weather_report fs) obs)
                (\<lambda>ds. Inr (Some ds))) = Inr ods"
  shows "(ods = None) = (wr_observations r = None)"
    and "\<forall>obs. wr_observations r = Some obs \<longrightarrow>
          (\<exists>ds. ods = Some ds \<and>
             list_all2 (\<lambda>ob d. WeatherObservation_get_doc_for_weather_report fs ob = Inr d) obs ds)"
  using assms
  by (auto simp: bind_err_def map_err_Inr split: option.splits sum.splits)

lemma observation_docs_returns:
  "(\<exists>ods. (case wr_observations r of None \<Rightarrow> Inr None
          | Some obs \<Rightarrow>
              bind_err (map_err (WeatherObservation_get_doc_for_weather_report fs) obs)
                (\<lambda>ds. Inr (Some ds))) = Inr ods)
     = (\<forall>obs. wr_observations r = Some obs \<longrightarrow>
          (\<forall>ob \<in> set obs. \<forall>name. ob_photo_filename ob = Some name \<longrightarrow> fs name \<noteq> None))"
proof (cases "wr_observations r")
  case None
  then show ?thesis by simp
next
  case (Some obs)
  have "(\<exists>ods. bind_err (map_err (WeatherObservation_get_doc_for_weather_report fs) obs)
                (\<lambda>ds. Inr (Some ds)) = Inr ods)
      = (\<exists>ds. map_err (WeatherObservation_get_doc_for_weather_report fs) obs = Inr ds)"
    by (cases "map_err (WeatherObservation_get_doc_for_weather_report fs) obs")
      (simp_all add: bind_err_def)
  then show ?thesis
    by (simp add: Some map_err_returns observation_doc_returns)
qed

lemma get_weather_report_doc_returns:
  "(\<exists>doc. get_weather_report_doc fs r = Inr doc)
     = ((\<forall>a. wr_owner r \<noteq> Some (An_Administrator a))
        \<and> (\<forall>obs. wr_observations r = Some obs \<longrightarrow>
              (\<forall>ob \<in> set obs. \<forall>name. ob_photo_filename ob = Some name \<longrightarrow> fs name \<noteq> None)))"
  unfolding owner_subset_returns [symmetric] observation_docs_returns [symmetric]
    get_weather_report_doc_unfold
  by (auto split: sum.splits)

lemma report_projection_keys:
  assumes "get_weather_report_doc fs r = Inr doc"
  shows "keys doc =
      {''date'', ''version'', ''last_modified'', ''location''}
    \<union> (if wr_station r = None then {} else {''station''})
    \<union> (if wr_owner r = None then {} else {''owner''})
    \<union> (if wr_readings r = None then {} else {''readings''})
    \<union> (if wr_observations r = None then {} else {''observations''})
    \<union> (if wr_day_summary r = None then {} else {''day_summary''})"
    and "\<forall>obs. wr_observations r = Some obs \<longrightarrow>
          (\<exists>ds. map_of doc ''observations'' = Some (FObservations ds) \<and>
             list_all2 (\<lambda>ob d. WeatherObservation_get_doc_for_weather_report fs ob = Inr d) obs ds)"
proof -
  let ?base = "[(''date'', FDate (wr_date r)),
                (''version'', FInt (wr_version r)),
                (''last_modified'', FDate (wr_last_modified r)),
                (''location'', FGeometry (wr_location r))]"
  from assms obtain sub ods where
    sub: "(case wr_owner r of None \<Rightarrow> Inr None
           | Some ow \<Rightarrow> bind_err (get_subset_for_weather_report ow) (\<lambda>sub. Inr (Some sub)))
          = Inr sub"
    and ods: "(case wr_observations r of None \<Rightarrow> Inr None
          | Some obs \<Rightarrow>
              bind_err (map_err (WeatherObservation_get_doc_for_weather_report fs) obs)
                (\<lambda>ds. Inr (Some ds))) = Inr ods"
    and doc: "doc = set_if_present ''day_summary'' (wr_day_summary r) FDaySummary
                     (set_if_present ''observations'' ods FObservations
                     (set_if_present ''readings'' (wr_readings r)
                        (\<lambda>rs. FReadings (map WeatherStationReading_get_doc_for_weather_report rs))
                     (set_if_present ''owner'' sub FSubdoc
                     (set_if_present ''station'' (wr_station r)
                        (\<lambda>s. FSubdoc (WeatherStation_get_subset_for_weather_report s))
                        ?base))))"
    unfolding get_weather_report_doc_unfold by (auto split: sum.splits)
  have base: "keys ?base = {''date'', ''version'', ''last_modified'', ''location''}"
    by (auto simp: keys_def)
  show "keys doc =
      {''date'', ''version'', ''last_modified'', ''location''}
    \<union> (if wr_station r = None then {} else {''station''})
    \<union> (if wr_owner r = None then {} else {''owner''})
    \<union> (if wr_readings r = None then {} else {''readings''})
    \<union> (if wr_observations r = None then {} else {''observations''})
    \<union> (if wr_day_summary r = None then {} else {''day_summary''})"
    unfolding doc keys_set_if_present base
      owner_subset_present [OF sub] observation_docs_present(1) [OF ods] ..
  show "\<forall>obs. wr_observations r = Some obs \<longrightarrow>
          (\<exists>ds. map_of doc ''observations'' = Some (FObservations ds) \<and>
             list_all2 (\<lambda>ob d. WeatherObservation_get_doc_for_weather_report fs ob = Inr d) obs ds)"
  proof (intro allI impI)
    fix obs assume "wr_observations r = Some obs"
    with observation_docs_present(2) [OF ods] obtain ds where
      ds: "ods = Some ds"
        "list_all2 (\<lambda>ob d. WeatherObservation_get_doc_for_weather_report fs ob = Inr d) obs ds"
      by blast
    have "map_of doc ''observations'' = Some (FObservations ds)"
      unfolding doc ds(1)
      by (simp add: map_of_set_if_present set_if_present_simps update_conv')
    with ds(2) show "\<exists>ds. map_of doc ''observations'' = Some (FObservations ds) \<and>
             list_all2 (\<lambda>ob d. WeatherObservation_get_doc_for_weather_report fs ob = Inr d) obs ds"
      by blast
  qed
qed

lemma observation_doc_membership:
  assumes "WeatherObservation_get_doc_for_weather_report fs ob = Inr d"
  shows "''timestamp'' \<in> keys d
    \<and> (''category'' \<in> keys d) = (ob_category ob \<noteq> None)
    \<and> (''temp'' \<in> keys d) = (ob_temp ob \<noteq> None)
    \<and> (''description'' \<in> keys d) = (ob_description ob \<noteq> None)
    \<and> (''humidity'' \<in> keys d) = (ob_humidity ob \<noteq> None)
    \<and> (''precip'' \<in> keys d) = (ob_precip ob \<noteq> None)
    \<and> (''sample_duration'' \<in> keys d) = (ob_sample_duration ob \<noteq> None)
    \<and> (''pressure'' \<in> keys d) = (ob_pressure ob \<noteq> None)
    \<and> (''wind_speed'' \<in> keys d) = (ob_wind_speed ob \<noteq> None)
    \<and> (''wind_direction'' \<in> keys d) = (ob_wind_direction ob \<noteq> None)
    \<and> (''photo'' \<in> keys d) = (ob_photo_filename ob \<noteq> None)"
  unfolding observation_doc_keys [OF assms] by simp

text \<open>
  Claim C10. The projection of a weather report returns a document exactly when the
  owner, if there is one, is not an administrator (who has no report subset) and the
  photo file of every observation can be read. The document it returns
  \<^item> has the keys \<^verbatim>\<open>date\<close>, \<^verbatim>\<open>version\<close>, \<^verbatim>\<open>last_modified\<close> and \<^verbatim>\<open>location\<close>;
  \<^item> has each of the keys \<^verbatim>\<open>station\<close>, \<^verbatim>\<open>owner\<close>, \<^verbatim>\<open>readings\<close>,
    \<^verbatim>\<open>observations\<close> and \<^verbatim>\<open>day_summary\<close> exactly when the attribute is not
    \<^verbatim>\<open>None\<close>, and no other key;
  \<^item> holds under \<^verbatim>\<open>observations\<close> one document for each observation, in order, which
    has the key \<^verbatim>\<open>timestamp\<close> and each of the keys \<^verbatim>\<open>category\<close>, \<^verbatim>\<open>temp\<close>,
    \<^verbatim>\<open>description\<close>, \<^verbatim>\<open>humidity\<close>, \<^verbatim>\<open>precip\<close>, \<^verbatim>\<open>sample_duration\<close>,
    \<^verbatim>\<open>pressure\<close>, \<^verbatim>\<open>wind_speed\<close>, \<^verbatim>\<open>wind_direction\<close> and \<^verbatim>\<open>photo\<close> exactly when
    the attribute (for the photo, the file name) is not \<^verbatim>\<open>None\<close>.
\<close>

theorem weather_report_doc_keys:
  "(\<exists>doc. get_weather_report_doc fs r = Inr doc)
     = ((\<forall>a. wr_owner r \<noteq> Some (An_Administrator a))
        \<and> (\<forall>obs. wr_observations r = Some obs \<longrightarrow>
              (\<forall>ob \<in> set obs. \<forall>name. ob_photo_filename ob = Some name \<longrightarrow> fs name \<noteq> None)))
   \<and> (\<forall>doc. get_weather_report_doc fs r = Inr doc \<longrightarrow>
         {''date'', ''version'', ''last_modified'', ''location''} \<subseteq> keys doc
       \<and> (''station'' \<in> keys doc) = (wr_station r \<noteq> None)
       \<and> (''owner'' \<in> keys doc) = (wr_owner r \<noteq> None)
       \<and> (''readings'' \<in> keys doc) = (wr_readings r \<noteq> None)
       \<and> (''observations'' \<in> keys doc) = (wr_observations r \<noteq> None)
       \<and> (''day_summary'' \<in> keys doc) = (wr_day_summary r \<noteq> None)
       \<and> keys doc \<subseteq> {''date'', ''version'', ''last_modified'', ''location'', ''station'',
                       ''owner'', ''readings'', ''observations'', ''day_summary''}
       \<and> (\<forall>obs. wr_observations r = Some obs \<longrightarrow>
             (\<exists>ds. map_of doc ''observations'' = Some (FObservations ds)
                \<and> length ds = length obs
                \<and> (\<forall>i < length obs.
                      ''timestamp'' \<in> keys (ds ! i)
                    \<and> (''category'' \<in> keys (ds ! i)) = (ob_category (obs ! i) \<noteq> None)
                    \<and> (''temp'' \<in> keys (ds ! i)) = (ob_temp (obs ! i) \<noteq> None)
                    \<and> (''description'' \<in> keys (ds ! i)) = (ob_description (obs ! i) \<noteq> None)
                    \<and> (''humidity'' \<in> keys (ds ! i)) = (ob_humidity (obs ! i) \<noteq> None)
                    \<and> (''precip'' \<in> keys (ds ! i)) = (ob_precip (obs ! i) \<noteq> None)
                    \<and> (''sample_duration'' \<in> keys (ds ! i))
                        = (ob_sample_duration (obs ! i) \<noteq> None)
                    \<and> (''pressure'' \<in> keys (ds ! i)) = (ob_pressure (obs ! i) \<noteq> None)
                    \<and> (''wind_speed'' \<in> keys (ds ! i)) = (ob_wind_speed (obs ! i) \<noteq> None)
                    \<and> (''wind_direction'' \<in> keys (ds ! i))
                        = (ob_wind_direction (obs ! i) \<noteq> None)
                    \<and> (''photo'' \<in> keys (ds ! i))
                        = (ob_photo_filename (obs ! i) \<noteq> None)))))"
proof (intro conjI allI impI)
  show "(\<exists>doc. get_weather_report_doc fs r = Inr doc)
     = ((\<forall>a. wr_owner r \<noteq> Some (An_Administrator a))
        \<and> (\<forall>obs. wr_observations r = Some obs \<longrightarrow>
              (\<forall>ob \<in> set obs. \<forall>name. ob_photo_filename ob = Some name \<longrightarrow> fs name \<noteq> None)))"
    by (rule get_weather_report_doc_returns)
next
  fix doc assume d: "get_weather_report_doc fs r = Inr doc"
  note k = report_projection_keys(1) [OF d]
  show "{''date'', ''version'', ''last_modified'', ''location''} \<subseteq> keys doc"
    unfolding k by blast
  show "(''station'' \<in> keys doc) = (wr_station r \<noteq> None)" unfolding k by simp
  show "(''owner'' \<in> keys doc) = (wr_owner r \<noteq> None)" unfolding k by simp
  show "(''readings'' \<in> keys doc) = (wr_readings r \<noteq> None)" unfolding k by simp
  show "(''observations'' \<in> keys doc) = (wr_observations r \<noteq> None)" unfolding k by simp
  show "(''day_summary'' \<in> keys doc) = (wr_day_summary r \<noteq> None)" unfolding k by simp
  show "keys doc \<subseteq> {''date'', ''version'', ''last_modified'', ''location'', ''station'',
                       ''owner'', ''readings'', ''observations'', ''day_summary''}"
    unfolding k by (auto split: if_splits)
  fix obs assume o: "wr_observations r = Some obs"
  with report_projection_keys(2) [OF d] obtain ds where
    m: "map_of doc ''observations'' = Some (FObservations ds)"
    and l: "list_all2 (\<lambda>ob d. WeatherObservation_get_doc_for_weather_report fs ob = Inr d) obs ds"
    by blast
  from l have len: "length ds = length obs" by (simp add: list_all2_lengthD)
  have each: "\<forall>i < length obs.
                      ''timestamp'' \<in> keys (ds ! i)
                    \<and> (''category'' \<in> keys (ds ! i)) = (ob_category (obs ! i) \<noteq> None)
                    \<and> (''temp'' \<in> keys (ds ! i)) = (ob_temp (obs ! i) \<noteq> None)
                    \<and> (''description'' \<in> keys (ds ! i)) = (ob_description (obs ! i) \<noteq> None)
                    \<and> (''humidity'' \<in> keys (ds ! i)) = (ob_humidity (obs ! i) \<noteq> None)
                    \<and> (''precip'' \<in> keys (ds ! i)) = (ob_precip (obs ! i) \<noteq> None)
                    \<and> (''sample_duration'' \<in> keys (ds ! i))
                        = (ob_sample_duration (obs ! i) \<noteq> None)
                    \<and> (''pressure'' \<in> keys (ds ! i)) = (ob_pressure (obs ! i) \<noteq> None)
                    \<and> (''wind_speed'' \<in> keys (ds ! i)) = (ob_wind_speed (obs ! i) \<noteq> None)
                    \<and> (''wind_direction'' \<in> keys (ds ! i))
                        = (ob_wind_direction (obs ! i) \<noteq> None)
                    \<and> (''photo'' \<in> keys (ds ! i))
                        = (ob_photo_filename (obs ! i) \<noteq> None)"
  proof (intro allI impI)
    fix i assume i: "i < length obs"
    have "WeatherObservation_get_doc_for_weather_report fs (obs ! i) = Inr (ds ! i)"
      by (rule list_all2_nthD [OF l i])
    then show "''timestamp'' \<in> keys (ds ! i)
                    \<and> (''category'' \<in> keys (ds ! i)) = (ob_category (obs ! i) \<noteq> None)
                    \<and> (''temp'' \<in> keys (ds ! i)) = (ob_temp (obs ! i) \<noteq> None)
                    \<and> (''description'' \<in> keys (ds ! i)) = (ob_description (obs ! i) \<noteq> None)
                    \<and> (''humidity'' \<in> keys (ds ! i)) = (ob_humidity (obs ! i) \<noteq> None)
                    \<and> (''precip'' \<in> keys (ds ! i)) = (ob_precip (obs ! i) \<noteq> None)
                    \<and> (''sample_duration'' \<in> keys (ds ! i))
                        = (ob_sample_duration (obs ! i) \<noteq> None)
                    \<and> (''pressure'' \<in> keys (ds ! i)) = (ob_pressure (obs ! i) \<noteq> None)
                    \<and> (''wind_speed'' \<in> keys (ds ! i)) = (ob_wind_speed (obs ! i) \<noteq> None)
                    \<and> (''wind_direction'' \<in> keys (ds ! i))
                        = (ob_wind_direction (obs ! i) \<noteq> None)
                    \<and> (''photo'' \<in> keys (ds ! i))
                        = (ob_photo_filename (obs ! i) \<noteq> None)"
      by (rule observation_doc_membership)
  qed
  from m len each show "\<exists>ds. map_of doc ''observations'' = Some (FObservations ds)
                \<and> length ds = length obs
                \<and> (\<forall>i < length obs.
                      ''timestamp'' \<in> keys (ds ! i)
                    \<and> (''category'' \<in> keys (ds ! i)) = (ob_category (obs ! i) \<noteq> None)
                    \<and> (''temp'' \<in> keys (ds ! i)) = (ob_temp (obs ! i) \<noteq> None)
                    \<and> (''description'' \<in> keys (ds ! i)) = (ob_description (obs ! i) \<noteq> None)
                    \<and> (''humidity'' \<in> keys (ds ! i)) = (ob_humidity (obs ! i) \<noteq> None)
                    \<and> (''precip'' \<in> keys (ds ! i)) = (ob_precip (obs ! i) \<noteq> None)
                    \<and> (''sample_duration'' \<in> keys (ds ! i))
                        = (ob_sample_duration (obs ! i) \<noteq> None)
                    \<and> (''pressure'' \<in> keys (ds ! i)) = (ob_pressure (obs ! i) \<noteq> None)
                    \<and> (''wind_speed'' \<in> keys (ds ! i)) = (ob_wind_speed (obs ! i) \<noteq> None)
                    \<and> (''wind_direction'' \<in> keys (ds ! i))
                        = (ob_wind_direction (obs ! i) \<noteq> None)
                    \<and> (''photo'' \<in> keys (ds ! i))
                        = (ob_photo_filename (obs ! i) \<noteq> None))"
    by blast
qed

text \<open>
  The manual report of 26 February 2025, with the photo file in place: the document
  has the keys of the owner and of the observations, but none for a station, readings
  or a day summary; its one observation document has a photo, a category, a
  temperature and a description, and no humidity.
\<close>

theorem weather_report_doc_keys_witness:
  "\<exists>doc ds. get_weather_report_doc [''images/flood.jpg'' \<mapsto> [255, 216, 255]] manualReport1
               = Inr doc
     \<and> ''date'' \<in> keys doc \<and> ''version'' \<in> keys doc
     \<and> ''last_modified'' \<in> keys doc \<and> ''location'' \<in> keys doc
     \<and> ''owner'' \<in> keys doc \<and> ''observations'' \<in> keys doc
     \<and> ''station'' \<notin> keys doc \<and> ''readings'' \<notin> keys doc \<and> ''day_summary'' \<notin> keys doc
     \<and> map_of doc ''observations'' = Some (FObservations ds)
     \<and> length ds = 1
     \<and> ''timestamp'' \<in> keys (ds ! 0) \<and> ''photo'' \<in> keys (ds ! 0)
     \<and> ''category'' \<in> keys (ds ! 0) \<and> ''temp'' \<in> keys (ds ! 0)
     \<and> ''description'' \<in> keys (ds ! 0) \<and> ''humidity'' \<notin> keys (ds ! 0)"
proof -
  let ?fs = "[''images/flood.jpg'' \<mapsto> [255, 216, 255 :: nat]]"
  note t = weather_report_doc_keys [of ?fs manualReport1]
  have a: "wr_station manualReport1 = None" "wr_owner manualReport1 = Some (A_WeatherWatcher ww_paul)"
    "wr_readings manualReport1 = None" "wr_observations manualReport1 = Some [observ1]"
    "wr_day_summary manualReport1 = None"
    by (simp_all add: manualReport1_def)
  have o: "ob_photo_filename observ1 = Some ''images/flood.jpg''"
    "ob_category observ1 = Some HEAVY_RAIN" "ob_temp observ1 = Some 10"
    "ob_description observ1 = Some ''Heavy rain caused flooding''"
    "ob_humidity observ1 = None"
    by (simp_all add: observ1_def)
  have ok: "(\<forall>a. wr_owner manualReport1 \<noteq> Some (An_Administrator a))
      \<and> (\<forall>obs. wr_observations manualReport1 = Some obs \<longrightarrow>
            (\<forall>ob \<in> set obs. \<forall>name. ob_photo_filename ob = Some name \<longrightarrow> ?fs name \<noteq> None))"
    by (simp add: a o)
  from t [THEN conjunct1, THEN iffD2, OF ok] obtain doc where
    doc: "get_weather_report_doc ?fs manualReport1 = Inr doc" ..
  note k = t [THEN conjunct2, rule_format, OF doc]
  note obsk = k [THEN conjunct2, THEN conjunct2, THEN conjunct2, THEN conjunct2,
      THEN conjunct2, THEN conjunct2, THEN conjunct2, rule_format, OF a(4)]
  from obsk obtain ds where ds: "map_of doc ''observations'' = Some (FObservations ds)"
    "length ds = length [observ1]"
    "\<forall>i < length [observ1].
        ''timestamp'' \<in> keys (ds ! i)
      \<and> (''category'' \<in> keys (ds ! i)) = (ob_category ([observ1] ! i) \<noteq> None)
      \<and> (''temp'' \<in> keys (ds ! i)) = (ob_temp ([observ1] ! i) \<noteq> None)
      \<and> (''description'' \<in> keys (ds ! i)) = (ob_description ([observ1] ! i) \<noteq> None)
      \<and> (''humidity'' \<in> keys (ds ! i)) = (ob_humidity ([observ1] ! i) \<noteq> None)
      \<and> (''precip'' \<in> keys (ds ! i)) = (ob_precip ([observ1] ! i) \<noteq> None)
      \<and> (''sample_duration'' \<in> keys (ds ! i)) = (ob_sample_duration ([observ1] ! i) \<noteq> None)
      \<and> (''pressure'' \<in> keys (ds ! i)) = (ob_pressure ([observ1] ! i) \<noteq> None)
      \<and> (''wind_speed'' \<in> keys (ds ! i)) = (ob_wind_speed ([observ1] ! i) \<noteq> None)
      \<and> (''wind_direction'' \<in> keys (ds ! i)) = (ob_wind_direction ([observ1] ! i) \<noteq> None)
      \<and> (''photo'' \<in> keys (ds ! i)) = (ob_photo_filename ([observ1] ! i) \<noteq> None)"
    by (elim exE conjE)
  from ds(3) have first: "''timestamp'' \<in> keys (ds ! 0)" "''photo'' \<in> keys (ds ! 0)"
    "''category'' \<in> keys (ds ! 0)" "''temp'' \<in> keys (ds ! 0)"
    "''description'' \<in> keys (ds ! 0)" "''humidity'' \<notin> keys (ds ! 0)"
    by (simp_all add: o)
  from k [THEN conjunct1] have top4: "''date'' \<in> keys doc" "''version'' \<in> keys doc"
    "''last_modified'' \<in> keys doc" "''location'' \<in> keys doc"
    by blast+
  have top: "''owner'' \<in> keys doc" "''observations'' \<in> keys doc"
    "''station'' \<notin> keys doc" "''readings'' \<notin> keys doc" "''day_summary'' \<notin> keys doc"
    using k [THEN conjunct2, THEN conjunct1]
      k [THEN conjunct2, THEN conjunct2, THEN conjunct1]
      k [THEN conjunct2, THEN conjunct2, THEN conjunct2, THEN conjunct1]
      k [THEN conjunct2, THEN conjunct2, THEN conjunct2, THEN conjunct2, THEN conjunct1]
      k [THEN conjunct2, THEN conjunct2, THEN conjunct2, THEN conjunct2, THEN conjunct2,
         THEN conjunct1]
    by (simp_all only: a option.simps simp_thms)
  from doc top4 top ds(1,2) first show ?thesis
    by (intro exI [of _ doc] exI [of _ ds] conjI) simp_all
qed

end
